theory Spec2Isabelle
  imports Main "HOL-Library.Word"
begin

unbundle bit_operations_syntax

section \<open>ptwrap.c: a command run in a pseudo-terminal\<close>

text \<open>
  A shallow embedding of \<^verbatim>\<open>ptwrap.c\<close>. Every C function is a HOL function of the same
  name. The static variables of the file, the C library's \<^verbatim>\<open>errno\<close> and the part of the
  kernel the program talks to form one record, \<open>world\<close>, that every function takes and
  returns. Whatever the kernel decides (the value a system call returns, the bytes a
  \<^verbatim>\<open>read\<close> delivers, the moment a signal arrives) is an argument of the model, so every
  theorem holds for all such decisions unless it names one in a hypothesis.
\<close>

subsection \<open>Machine types\<close>

text \<open>
  \<^verbatim>\<open>size_t\<close> and \<^verbatim>\<open>ssize_t\<close> are 64-bit words (an LP64 platform); an \<^verbatim>\<open>ssize_t\<close> is read
  with \<open>sint\<close>, and the conversion between the two keeps the bits, as in C. The flag words
  of \<^verbatim>\<open>struct termios\<close> are 32-bit words. A C \<^verbatim>\<open>int\<close> (file descriptors, process
  identifiers, wait statuses, exit statuses) is an \<open>int\<close>: the only arithmetic the program does on
  one is \<^verbatim>\<open>master_fd + 1\<close> and \<^verbatim>\<open>WTERMSIG(..) | 0x80\<close>, neither of which can overflow.
\<close>

type_synonym size_t = "64 word"
type_synonym ssize_t = "64 word"
type_synonym tcflag_t = "32 word"
type_synonym cc_t = "8 word"

subsection \<open>Constants of the platform's headers\<close>

text \<open>
  The headers are not part of the repository. The three standard descriptors are fixed by
  POSIX; the other values are those of Linux with glibc. The general theorems below use
  of these values only that \<open>EXIT_FAILURE\<close> is not zero, that the three standard
  descriptors are distinct and that \<open>SIGWINCH\<close> is a valid signal number; the concrete
  instances unfold them.
\<close>

definition EXIT_FAILURE :: int where "EXIT_FAILURE = 1"
definition STDIN_FILENO :: int where "STDIN_FILENO = 0"
definition STDOUT_FILENO :: int where "STDOUT_FILENO = 1"
definition STDERR_FILENO :: int where "STDERR_FILENO = 2"
definition BUFSIZ :: nat where "BUFSIZ = 8192"
definition EINTR :: int where "EINTR = 4"
definition ENOTTY :: int where "ENOTTY = 25"
definition SIGWINCH :: int where "SIGWINCH = 28"

definition BRKINT :: tcflag_t where "BRKINT = 0x2"
definition ICRNL :: tcflag_t where "ICRNL = 0x100"
definition IGNBRK :: tcflag_t where "IGNBRK = 0x1"
definition IGNCR :: tcflag_t where "IGNCR = 0x80"
definition INLCR :: tcflag_t where "INLCR = 0x40"
definition IXON :: tcflag_t where "IXON = 0x400"
definition IXOFF :: tcflag_t where "IXOFF = 0x1000"
definition PARMRK :: tcflag_t where "PARMRK = 0x8"
definition OPOST :: tcflag_t where "OPOST = 0x1"
definition ECHO :: tcflag_t where "ECHO = 0x8"
definition ICANON :: tcflag_t where "ICANON = 0x2"
definition IEXTEN :: tcflag_t where "IEXTEN = 0x8000"
definition ISIG :: tcflag_t where "ISIG = 0x1"
definition VMIN :: nat where "VMIN = 6"
definition VTIME :: nat where "VTIME = 5"

subsection \<open>Data\<close>

datatype state_T = INACTIVE | READING | WRITING

record channel_T =
  from_fd :: int
  to_fd :: int
  state :: state_T
  buffer :: string
  buffer_position :: size_t
  buffer_length :: size_t

record termios =
  c_iflag :: tcflag_t
  c_oflag :: tcflag_t
  c_cflag :: tcflag_t
  c_lflag :: tcflag_t
  c_cc :: "cc_t list"

record winsize =
  ws_row :: "16 word"
  ws_col :: "16 word"
  ws_xpixel :: "16 word"
  ws_ypixel :: "16 word"

text \<open>The calls the process makes, in the order it makes them, with their arguments.\<close>

datatype syscall =
    Sys_sigprocmask "int set"
  | Sys_sigaction int
  | Sys_posix_openpt
  | Sys_grantpt int
  | Sys_unlockpt int
  | Sys_ptsname int
  | Sys_fork
  | Sys_tcgetattr int
  | Sys_tcsetattr int termios
  | Sys_TIOCGWINSZ int
  | Sys_TIOCSWINSZ int winsize
  | Sys_pselect int "int set" "int set" "int set"
  | Sys_read int nat
  | Sys_write int string
  | Sys_waitpid int
  | Sys_close int
  | Sys_setsid
  | Sys_open string
  | Sys_dup int
  | Sys_tcgetpgrp int
  | Sys_getpgrp
  | Sys_execvp "string list"

text \<open>
  What is written to the standard error stream: text the program formats itself, and the
  line \<^verbatim>\<open>perror\<close> prints for a message and the current \<^verbatim>\<open>errno\<close>.
\<close>

datatype diagnostic = Text string | Perror string int

record world =
  program_name :: string
  should_set_terminal_size :: bool
  mask_for_select :: "int set"
  original_termios :: termios
  errno :: int
  sigmask :: "int set"
  sigwinch_handler :: bool
  stdin_termios :: "termios option"
  stdout_winsize :: "winsize option"
  stderr :: "diagnostic list"
  trace :: "syscall list"

text \<open>
  \<open>program_name\<close>, \<open>should_set_terminal_size\<close>, \<open>mask_for_select\<close> and \<open>original_termios\<close>
  are the static variables of the file. \<open>sigmask\<close> is the set of blocked signals and
  \<open>sigwinch_handler\<close> says whether \<^verbatim>\<open>receive_sigwinch\<close> is installed. \<open>stdin_termios\<close> is
  the attribute set of the terminal behind the standard input (\<open>None\<close>: not a terminal),
  \<open>stdout_winsize\<close> the window size of the terminal behind the standard output (\<open>None\<close>:
  the query fails).
\<close>

text \<open>
  How a function ends: it returns a value, the process exits with a status (\<^verbatim>\<open>exit\<close>), it
  aborts on a failed \<^verbatim>\<open>assert\<close>, it stays blocked in a wait for which the kernel has no
  further event, or the process image is replaced (\<^verbatim>\<open>execvp\<close>).
\<close>

datatype 'a result = Return 'a | Exit int | Abort | Blocked | Exec "string list"

definition and_then ::
  "'a result \<times> world \<Rightarrow> ('a \<Rightarrow> world \<Rightarrow> 'b result \<times> world) \<Rightarrow> 'b result \<times> world" where
  "and_then m f =
     (case m of
        (Return x, w) \<Rightarrow> f x w
      | (Exit n, w) \<Rightarrow> (Exit n, w)
      | (Abort, w) \<Rightarrow> (Abort, w)
      | (Blocked, w) \<Rightarrow> (Blocked, w)
      | (Exec c, w) \<Rightarrow> (Exec c, w))"

text \<open>
  A system call is logged; one that fails (a negative return value) leaves the kernel's
  error number in \<open>errno\<close>.
\<close>

definition sys :: "syscall \<Rightarrow> int \<Rightarrow> int \<Rightarrow> world \<Rightarrow> world" where
  "sys c r e w = w\<lparr>errno := (if r < 0 then e else errno w), trace := trace w @ [c]\<rparr>"

subsection \<open>Fatal errors\<close>

definition error_exit :: "string \<Rightarrow> world \<Rightarrow> 'a result \<times> world" where
  "error_exit message w =
     (Exit EXIT_FAILURE,
      w\<lparr>stderr := stderr w @ [Text (program_name w @ '': '' @ message @ [CHR 0x0A])]\<rparr>)"

definition errno_exit :: "string \<Rightarrow> world \<Rightarrow> 'a result \<times> world" where
  "errno_exit message w =
     (Exit EXIT_FAILURE,
      w\<lparr>stderr := stderr w @ [Text (program_name w @ '': ''), Perror message (errno w)]\<rparr>)"

subsection \<open>The window-size signal\<close>

definition receive_sigwinch :: "int \<Rightarrow> world \<Rightarrow> world" where
  "receive_sigwinch sigwinch w = w\<lparr>should_set_terminal_size := True\<rparr>"

text \<open>
  The signal-set functions of the C library. A signal number is valid from 1 to 64; the
  program only ever passes \<open>SIGWINCH\<close>.
\<close>

definition sigemptyset :: "int \<times> int set" where
  "sigemptyset = (0, {})"

definition sigaddset :: "int set \<Rightarrow> int \<Rightarrow> int \<times> int set" where
  "sigaddset s n = (if 1 \<le> n \<and> n \<le> 64 then (0, insert n s) else (-1, s))"

definition sigdelset :: "int set \<Rightarrow> int \<Rightarrow> int \<times> int set" where
  "sigdelset s n = (if 1 \<le> n \<and> n \<le> 64 then (0, s - {n}) else (-1, s))"

text \<open>\<^verbatim>\<open>sigprocmask(SIG_BLOCK, set, old)\<close>: the old mask is stored, the set is blocked.\<close>

definition sigprocmask_BLOCK :: "int set \<Rightarrow> world \<Rightarrow> (int \<times> int set) \<times> world" where
  "sigprocmask_BLOCK s w =
     ((0, sigmask w), sys (Sys_sigprocmask s) 0 0 (w\<lparr>sigmask := sigmask w \<union> s\<rparr>))"

definition sigaction_SIGWINCH :: "world \<Rightarrow> int \<times> world" where
  "sigaction_SIGWINCH w = (0, sys (Sys_sigaction SIGWINCH) 0 0 (w\<lparr>sigwinch_handler := True\<rparr>))"

definition install_sigwinch_handler :: "world \<Rightarrow> unit result \<times> world" where
  "install_sigwinch_handler w =
     (let (r1, sa_mask) = sigemptyset;
          (r2, m) = sigemptyset;
          w = w\<lparr>mask_for_select := m\<rparr>
      in if r1 < 0 \<or> r2 < 0 then errno_exit ''sigemptyset'' w
         else
           let (r3, sa_mask) = sigaddset sa_mask SIGWINCH
           in if r3 < 0 then errno_exit ''sigaddset'' w
              else
                let ((r4, old), w) = sigprocmask_BLOCK sa_mask w;
                    w = w\<lparr>mask_for_select := old\<rparr>
                in if r4 < 0 then errno_exit ''sigprocmask'' w
                   else
                     let (r5, m) = sigdelset (mask_for_select w) SIGWINCH;
                         w = w\<lparr>mask_for_select := m\<rparr>
                     in if r5 < 0 then errno_exit ''sigdelset'' w
                        else
                          let (r6, w) = sigaction_SIGWINCH w
                          in if r6 < 0 then errno_exit ''sigaction'' w
                             else (Return (), w))"

text \<open>
  \<^verbatim>\<open>ioctl(STDOUT_FILENO, TIOCGWINSZ, &size)\<close>: \<open>None\<close> stands for a negative return value.
  \<^verbatim>\<open>ioctl(fd, TIOCSWINSZ, &size)\<close>: the program ignores what it returns.
\<close>

definition ioctl_TIOCGWINSZ :: "world \<Rightarrow> winsize option \<times> world" where
  "ioctl_TIOCGWINSZ w =
     (stdout_winsize w, w\<lparr>trace := trace w @ [Sys_TIOCGWINSZ STDOUT_FILENO]\<rparr>)"

definition ioctl_TIOCSWINSZ :: "int \<Rightarrow> winsize \<Rightarrow> world \<Rightarrow> world" where
  "ioctl_TIOCSWINSZ fd sz w = w\<lparr>trace := trace w @ [Sys_TIOCSWINSZ fd sz]\<rparr>"

definition set_terminal_size :: "int \<Rightarrow> world \<Rightarrow> world" where
  "set_terminal_size fd w =
     (let w = w\<lparr>should_set_terminal_size := False\<rparr>;
          (r, w) = ioctl_TIOCGWINSZ w
      in case r of
           Some sz \<Rightarrow> ioctl_TIOCSWINSZ fd sz w
         | None \<Rightarrow> w)"

subsection \<open>Terminal attributes\<close>

text \<open>
  \<^verbatim>\<open>tcgetattr(STDIN_FILENO, ..)\<close> fails when the standard input is not a terminal.
  \<^verbatim>\<open>tcsetattr(STDIN_FILENO, TCSADRAIN, ..)\<close> takes the kernel's verdict \<open>r\<close> (negative: the
  call fails, for whatever reason, and changes nothing); it cannot succeed on a descriptor
  that is not a terminal.
\<close>

definition tcgetattr :: "world \<Rightarrow> termios option \<times> world" where
  "tcgetattr w =
     (stdin_termios w,
      sys (Sys_tcgetattr STDIN_FILENO) (if stdin_termios w = None then -1 else 0) ENOTTY w)"

definition tcsetattr :: "termios \<Rightarrow> int \<Rightarrow> int \<Rightarrow> world \<Rightarrow> int \<times> world" where
  "tcsetattr t r e w =
     (let ok = (0 \<le> r \<and> stdin_termios w \<noteq> None);
          ret = (if ok then 0 else -1)
      in (ret, sys (Sys_tcsetattr STDIN_FILENO t) ret e
                 (w\<lparr>stdin_termios := (if ok then Some t else stdin_termios w)\<rparr>)))"

definition disable_canonical_io :: "int \<Rightarrow> int \<Rightarrow> world \<Rightarrow> bool \<times> world" where
  "disable_canonical_io r e w =
     (case tcgetattr w of
        (None, w) \<Rightarrow> (False, w)
      | (Some t, w) \<Rightarrow>
          let w = w\<lparr>original_termios := t\<rparr>;
              new_termios = original_termios w;
              new_termios = new_termios\<lparr>c_iflag := c_iflag new_termios AND
                NOT (BRKINT OR ICRNL OR IGNBRK OR IGNCR OR INLCR OR IXON OR IXOFF OR PARMRK)\<rparr>;
              new_termios = new_termios\<lparr>c_oflag := c_oflag new_termios AND NOT OPOST\<rparr>;
              new_termios = new_termios\<lparr>c_lflag := c_lflag new_termios AND
                NOT (ECHO OR ICANON OR IEXTEN OR ISIG)\<rparr>;
              new_termios = new_termios\<lparr>c_cc := (c_cc new_termios)[VMIN := 1]\<rparr>;
              new_termios = new_termios\<lparr>c_cc := (c_cc new_termios)[VTIME := 0]\<rparr>;
              (ret, w) = tcsetattr new_termios r e w
          in (ret \<ge> 0, w))"

definition enable_canonical_io :: "int \<Rightarrow> int \<Rightarrow> world \<Rightarrow> world" where
  "enable_canonical_io r e w = snd (tcsetattr (original_termios w) r e w)"

subsection \<open>Channels\<close>

definition set_fd_set :: "channel_T \<Rightarrow> int set \<times> int set \<Rightarrow> int set \<times> int set" where
  "set_fd_set channel fds =
     (case fds of (read_fds, write_fds) \<Rightarrow>
        (case state channel of
           INACTIVE \<Rightarrow> (read_fds, write_fds)
         | READING \<Rightarrow> (insert (from_fd channel) read_fds, write_fds)
         | WRITING \<Rightarrow> (read_fds, insert (to_fd channel) write_fds)))"

text \<open>
  The kernel's answer to one \<^verbatim>\<open>read\<close> or \<^verbatim>\<open>write\<close>: the value returned, the bytes a
  successful \<^verbatim>\<open>read\<close> stores at the start of the buffer, and the error number of a failure.
\<close>

record io_answer =
  io_ret :: ssize_t
  io_data :: string
  io_errno :: int

definition store :: "string \<Rightarrow> string \<Rightarrow> string" where
  "store bs buf = take (length buf) (bs @ drop (length bs) buf)"

definition sys_read :: "int \<Rightarrow> string \<Rightarrow> nat \<Rightarrow> io_answer \<Rightarrow> world \<Rightarrow> (ssize_t \<times> string) \<times> world" where
  "sys_read fd buf count a w =
     ((io_ret a, if 0 < sint (io_ret a) then store (io_data a) buf else buf),
      sys (Sys_read fd count) (sint (io_ret a)) (io_errno a) w)"

definition sys_write :: "int \<Rightarrow> string \<Rightarrow> io_answer \<Rightarrow> world \<Rightarrow> ssize_t \<times> world" where
  "sys_write fd bytes a w =
     (io_ret a, sys (Sys_write fd bytes) (sint (io_ret a)) (io_errno a) w)"

definition process_buffer ::
  "channel_T \<Rightarrow> int set \<Rightarrow> int set \<Rightarrow> io_answer \<Rightarrow> world \<Rightarrow> channel_T result \<times> world" where
  "process_buffer channel read_fds write_fds a w =
     (case state channel of
        INACTIVE \<Rightarrow> (Return channel, w)
      | READING \<Rightarrow>
          if from_fd channel \<notin> read_fds then (Return channel, w)
          else
            let channel = channel\<lparr>buffer_position := 0\<rparr>;
                ((sz, buf), w) = sys_read (from_fd channel) (buffer channel) BUFSIZ a w;
                channel = channel\<lparr>buffer := buf\<rparr>
            in if sint sz \<le> 0 then (Return (channel\<lparr>state := INACTIVE\<rparr>), w)
               else (Return (channel\<lparr>state := WRITING, buffer_length := sz\<rparr>), w)
      | WRITING \<Rightarrow>
          if to_fd channel \<notin> write_fds then (Return channel, w)
          else if \<not> buffer_position channel < buffer_length channel then (Abort, w)
          else
            let (sz, w) = sys_write (to_fd channel)
                  (take (unat (buffer_length channel - buffer_position channel))
                     (drop (unat (buffer_position channel)) (buffer channel))) a w
            in if sint sz < 0 then (Return channel, w)
               else
                 let channel = channel\<lparr>buffer_position := buffer_position channel + sz\<rparr>
                 in if buffer_position channel = buffer_length channel
                    then (Return (channel\<lparr>state := READING\<rparr>), w)
                    else (Return channel, w))"

subsection \<open>The forwarding loop\<close>

text \<open>
  What wakes \<^verbatim>\<open>pselect\<close>: descriptors that are ready for reading and for writing, a signal
  that is caught while the call waits, or a failure with an error number. The kernel
  reports a descriptor only if the caller registered it and it is below \<open>nfds\<close>. While the
  call waits the signal mask is \<open>msk\<close>; \<open>receive_sigwinch\<close> runs when the signal is
  \<open>SIGWINCH\<close>, the handler is installed and \<open>msk\<close> lets it through. An event of the
  loop is one wake-up together with the kernel's answers to the \<^verbatim>\<open>read\<close> or \<^verbatim>\<open>write\<close>
  that each channel may then issue.
\<close>

datatype wake = Ready "int set" "int set" | Signalled int | Failed int

record event =
  wake :: wake
  answer_incoming :: io_answer
  answer_outgoing :: io_answer

definition pselect ::
  "int \<Rightarrow> int set \<Rightarrow> int set \<Rightarrow> int set \<Rightarrow> wake \<Rightarrow> world
     \<Rightarrow> (int \<times> int set \<times> int set) \<times> world" where
  "pselect nfds read_fds write_fds msk k w =
     (case k of
        Ready r wr \<Rightarrow>
          let rs = read_fds \<inter> r \<inter> {0..<nfds};
              ws = write_fds \<inter> wr \<inter> {0..<nfds}
          in ((int (card rs + card ws), rs, ws),
              sys (Sys_pselect nfds read_fds write_fds msk) 0 0 w)
      | Signalled sig \<Rightarrow>
          let w = (if sig = SIGWINCH \<and> sigwinch_handler w \<and> SIGWINCH \<notin> msk
                   then receive_sigwinch sig w else w)
          in ((-1, read_fds, write_fds),
              sys (Sys_pselect nfds read_fds write_fds msk) (-1) EINTR w)
      | Failed e \<Rightarrow>
          ((-1, read_fds, write_fds),
           sys (Sys_pselect nfds read_fds write_fds msk) (-1) e w))"

text \<open>One pass through the body of the \<^verbatim>\<open>while\<close> loop of \<^verbatim>\<open>forward_all_io\<close>.\<close>

definition loop_body ::
  "int \<Rightarrow> channel_T \<Rightarrow> channel_T \<Rightarrow> event \<Rightarrow> world
     \<Rightarrow> (channel_T \<times> channel_T) result \<times> world" where
  "loop_body master_fd incoming outgoing ev w =
     (let fds = ({}, {});
          fds = set_fd_set incoming fds;
          fds = set_fd_set outgoing fds;
          ((r, read_fds, write_fds), w) =
            pselect (master_fd + 1) (fst fds) (snd fds) (mask_for_select w) (wake ev) w
      in if r < 0 then
           (if errno w \<noteq> EINTR
            then errno_exit ''cannot find file descriptor to forward'' w
            else (Return (incoming, outgoing),
                  if should_set_terminal_size w then set_terminal_size master_fd w else w))
         else
           and_then (process_buffer incoming read_fds write_fds (answer_incoming ev) w)
             (\<lambda>incoming w.
                and_then (process_buffer outgoing read_fds write_fds (answer_outgoing ev) w)
                  (\<lambda>outgoing w. (Return (incoming, outgoing), w))))"

text \<open>
  The loop itself, over the events the kernel still has. With no event left and the
  outgoing channel not \<open>INACTIVE\<close> the process stays in \<^verbatim>\<open>pselect\<close>, which has no timeout.
  The final values of the two local channels are returned for the theorems' sake.
\<close>

fun forward_loop ::
  "int \<Rightarrow> channel_T \<Rightarrow> channel_T \<Rightarrow> event list \<Rightarrow> world
     \<Rightarrow> (channel_T \<times> channel_T) result \<times> world" where
  "forward_loop master_fd incoming outgoing [] w =
     (if state outgoing \<noteq> INACTIVE then (Blocked, w)
      else (Return (incoming, outgoing), w))"
| "forward_loop master_fd incoming outgoing (ev # evs) w =
     (if state outgoing \<noteq> INACTIVE then
        (case loop_body master_fd incoming outgoing ev w of
           (Return (incoming, outgoing), w) \<Rightarrow> forward_loop master_fd incoming outgoing evs w
         | (Exit n, w) \<Rightarrow> (Exit n, w)
         | (Abort, w) \<Rightarrow> (Abort, w)
         | (Blocked, w) \<Rightarrow> (Blocked, w)
         | (Exec c, w) \<Rightarrow> (Exec c, w))
      else (Return (incoming, outgoing), w))"

text \<open>
  \<open>incoming0\<close> and \<open>outgoing0\<close> are the two local structures as the stack holds them on
  entry: the function assigns the descriptors and the state and nothing else.
\<close>

definition forward_all_io ::
  "int \<Rightarrow> channel_T \<Rightarrow> channel_T \<Rightarrow> event list \<Rightarrow> world
     \<Rightarrow> (channel_T \<times> channel_T) result \<times> world" where
  "forward_all_io master_fd incoming0 outgoing0 evs w =
     (let incoming = incoming0\<lparr>from_fd := STDIN_FILENO\<rparr>;
          incoming = incoming\<lparr>to_fd := master_fd\<rparr>;
          outgoing = outgoing0\<lparr>from_fd := master_fd\<rparr>;
          outgoing = outgoing\<lparr>to_fd := STDOUT_FILENO\<rparr>;
          outgoing = outgoing\<lparr>state := READING\<rparr>;
          incoming = incoming\<lparr>state := state outgoing\<rparr>
      in forward_loop master_fd incoming outgoing evs w)"

subsection \<open>Awaiting the child\<close>

text \<open>
  The four macros of \<^verbatim>\<open><sys/wait.h>\<close> that decode a wait status are the platform's, so they
  are a parameter. \<open>glibc_wait\<close> is the decoding of Linux with glibc, used for concrete
  instances.
\<close>

record wait_macros =
  WIFEXITED :: "int \<Rightarrow> bool"
  WEXITSTATUS :: "int \<Rightarrow> int"
  WIFSIGNALED :: "int \<Rightarrow> bool"
  WTERMSIG :: "int \<Rightarrow> int"

definition glibc_wait :: wait_macros where
  "glibc_wait =
     \<lparr>WIFEXITED = (\<lambda>s. s AND 0x7f = 0),
      WEXITSTATUS = (\<lambda>s. drop_bit 8 (s AND 0xff00)),
      WIFSIGNALED = (\<lambda>s. s AND 0x7f \<noteq> 0 \<and> s AND 0x7f \<noteq> 0x7f),
      WTERMSIG = (\<lambda>s. s AND 0x7f)\<rparr>"

text \<open>
  \<^verbatim>\<open>waitpid(child_pid, &wait_status, 0)\<close> answers with the value it returns, the status it
  stores and, when it fails, an error number.
\<close>

definition await_child ::
  "wait_macros \<Rightarrow> int \<Rightarrow> int \<times> int \<times> int \<Rightarrow> world \<Rightarrow> int result \<times> world" where
  "await_child M child_pid a w =
     (case a of (r, wait_status, e) \<Rightarrow>
        let w = sys (Sys_waitpid child_pid) r e w
        in if r \<noteq> child_pid then errno_exit ''cannot await child process'' w
           else if WIFEXITED M wait_status then (Return (WEXITSTATUS M wait_status), w)
           else if WIFSIGNALED M wait_status then (Return (WTERMSIG M wait_status OR 0x80), w)
           else (Return EXIT_FAILURE, w))"

subsection \<open>The host's answers\<close>

text \<open>
  Everything else the host decides during one run of the process: the values the
  remaining calls return (\<open>host_errno\<close> is the error number of the one that fails), what
  the stack holds where \<^verbatim>\<open>forward_all_io\<close> puts its two channels, the events of the
  forwarding loop and the outcome of \<^verbatim>\<open>waitpid\<close>. \<open>tcsetattr_ret1\<close> answers the call in
  \<^verbatim>\<open>disable_canonical_io\<close>, \<open>tcsetattr_ret2\<close> the call in \<^verbatim>\<open>enable_canonical_io\<close>.
  \<open>execvp_fails\<close> says whether \<^verbatim>\<open>execvp\<close> returns at all.
\<close>

record host =
  host_errno :: int
  posix_openpt_ret :: int
  grantpt_ret :: int
  unlockpt_ret :: int
  ptsname_ret :: "string option"
  fork_ret :: int
  tcsetattr_ret1 :: int
  tcsetattr_ret2 :: int
  incoming0 :: channel_T
  outgoing0 :: channel_T
  events :: "event list"
  waitpid_ret :: int
  wait_status :: int
  setsid_ret :: int
  close_stdin_ret :: int
  open_ret :: int
  close_stdout_ret :: int
  dup_stdout_ret :: int
  close_stderr_ret :: int
  dup_stderr_ret :: int
  tcgetpgrp_ret :: int
  getpgrp_ret :: int
  execvp_fails :: bool

subsection \<open>The pseudo-terminal\<close>

definition prepare_master_pseudo_terminal :: "host \<Rightarrow> world \<Rightarrow> int result \<times> world" where
  "prepare_master_pseudo_terminal h w =
     (let fd = posix_openpt_ret h;
          w = sys Sys_posix_openpt fd (host_errno h) w
      in if fd < 0 then errno_exit ''cannot open master pseudo-terminal'' w
         else if fd \<le> STDERR_FILENO then error_exit ''stdin/stdout/stderr are not open'' w
         else
           let w = sys (Sys_grantpt fd) (grantpt_ret h) (host_errno h) w
           in if grantpt_ret h < 0
              then errno_exit ''pseudo-terminal permission not granted'' w
              else
                let w = sys (Sys_unlockpt fd) (unlockpt_ret h) (host_errno h) w
                in if unlockpt_ret h < 0
                   then errno_exit ''pseudo-terminal permission not unlocked'' w
                   else (Return fd, set_terminal_size fd w))"

definition slave_pseudo_terminal_name :: "int \<Rightarrow> host \<Rightarrow> world \<Rightarrow> string result \<times> world" where
  "slave_pseudo_terminal_name master_fd h w =
     (let w = w\<lparr>errno := 0\<rparr>
      in case ptsname_ret h of
           None \<Rightarrow>
             errno_exit ''cannot name slave pseudo-terminal''
               (sys (Sys_ptsname master_fd) (-1) (host_errno h) w)
         | Some name \<Rightarrow> (Return name, sys (Sys_ptsname master_fd) 0 0 w))"

subsection \<open>The child's side\<close>

definition become_session_leader :: "host \<Rightarrow> world \<Rightarrow> unit result \<times> world" where
  "become_session_leader h w =
     (let w = sys Sys_setsid (setsid_ret h) (host_errno h) w
      in if setsid_ret h < 0 then errno_exit ''cannot create new session'' w
         else (Return (), w))"

definition prepare_slave_pseudo_terminal_fds ::
  "string \<Rightarrow> host \<Rightarrow> world \<Rightarrow> unit result \<times> world" where
  "prepare_slave_pseudo_terminal_fds slave_name h w =
     (let w = sys (Sys_close STDIN_FILENO) (close_stdin_ret h) (host_errno h) w
      in if close_stdin_ret h < 0 then errno_exit ''cannot close old stdin'' w
         else
           let slave_fd = open_ret h;
               w = sys (Sys_open slave_name) slave_fd (host_errno h) w
           in if slave_fd \<noteq> STDIN_FILENO
              then errno_exit ''cannot open slave pseudo-terminal at stdin'' w
              else
                let w = sys (Sys_close STDOUT_FILENO) (close_stdout_ret h) (host_errno h) w
                in if close_stdout_ret h < 0 then errno_exit ''cannot close old stdout'' w
                   else
                     let w = sys (Sys_dup slave_fd) (dup_stdout_ret h) (host_errno h) w
                     in if dup_stdout_ret h \<noteq> STDOUT_FILENO
                        then errno_exit ''cannot open slave pseudo-terminal at stdout'' w
                        else
                          let w = sys (Sys_close STDERR_FILENO) (close_stderr_ret h)
                                    (host_errno h) w
                          in if close_stderr_ret h < 0
                             then errno_exit ''cannot close old stderr'' w
                             else
                               let w = sys (Sys_dup slave_fd) (dup_stderr_ret h) (host_errno h) w
                               in if dup_stderr_ret h \<noteq> STDERR_FILENO
                                  then errno_exit
                                         ''cannot open slave pseudo-terminal at stderr'' w
                                  else
                                    let w = sys (Sys_tcgetpgrp slave_fd) (tcgetpgrp_ret h)
                                              (host_errno h) w;
                                        w = sys Sys_getpgrp (getpgrp_ret h) (host_errno h) w
                                    in if tcgetpgrp_ret h \<noteq> getpgrp_ret h
                                       then error_exit
                                         ''cannot become controlling process of slave pseudo-terminal''
                                         w
                                       else (Return (), w))"

text \<open>
  \<open>argv\<close> here is the tail of the argument vector that starts at the command, which is
  never empty where \<open>main\<close> calls the function.
\<close>

definition exec_command :: "string list \<Rightarrow> host \<Rightarrow> world \<Rightarrow> 'a result \<times> world" where
  "exec_command argv h w =
     (if execvp_fails h
      then errno_exit (argv ! 0) (sys (Sys_execvp argv) (-1) (host_errno h) w)
      else (Exec argv, sys (Sys_execvp argv) 0 0 w))"

subsection \<open>The program\<close>

text \<open>
  The two branches that \<open>main\<close> takes after \<^verbatim>\<open>fork\<close>, under its comments
  \<^verbatim>\<open>/* parent process */\<close> and \<^verbatim>\<open>/* child process */\<close>. The value the parent's branch returns
  is the value \<open>main\<close> returns, the exit status of the process.
\<close>

definition main_parent ::
  "wait_macros \<Rightarrow> int \<Rightarrow> int \<Rightarrow> host \<Rightarrow> world \<Rightarrow> int result \<times> world" where
  "main_parent M master_fd child_pid h w =
     (let (noncanon, w) = disable_canonical_io (tcsetattr_ret1 h) (host_errno h) w
      in and_then (forward_all_io master_fd (incoming0 h) (outgoing0 h) (events h) w)
           (\<lambda>_ w.
              and_then
                (await_child M child_pid (waitpid_ret h, wait_status h, host_errno h) w)
                (\<lambda>exit_status w.
                   let w = (if noncanon
                            then enable_canonical_io (tcsetattr_ret2 h) (host_errno h) w
                            else w)
                   in (Return exit_status, w))))"

definition main_child ::
  "int \<Rightarrow> string \<Rightarrow> string list \<Rightarrow> host \<Rightarrow> world \<Rightarrow> int result \<times> world" where
  "main_child master_fd slave_name argv h w =
     (let w = sys (Sys_close master_fd) 0 0 w
      in and_then (become_session_leader h w) (\<lambda>_ w.
         and_then (prepare_slave_pseudo_terminal_fds slave_name h w) (\<lambda>_ w.
           exec_command argv h w)))"

text \<open>\<open>argv\<close> is the argument vector, so \<^verbatim>\<open>argc\<close> is its length.\<close>

definition main :: "wait_macros \<Rightarrow> string list \<Rightarrow> host \<Rightarrow> world \<Rightarrow> int result \<times> world" where
  "main M argv h w =
     (let argc = length argv
      in if argc \<le> 0 then (Exit EXIT_FAILURE, w)
         else
           let w = w\<lparr>program_name := argv ! 0\<rparr>;
               optind = 1;
               optind = (if optind < argc \<and> argv ! optind = ''--'' then optind + 1 else optind)
           in if optind = argc then error_exit ''operand missing'' w
              else
                and_then (install_sigwinch_handler w) (\<lambda>_ w.
                and_then (prepare_master_pseudo_terminal h w) (\<lambda>master_fd w.
                and_then (slave_pseudo_terminal_name master_fd h w) (\<lambda>slave_name w.
                  let child_pid = fork_ret h;
                      w = sys Sys_fork child_pid (host_errno h) w
                  in if child_pid < 0 then errno_exit ''cannot spawn child process'' w
                     else if child_pid > 0 then main_parent M master_fd child_pid h w
                     else main_child master_fd slave_name (drop optind argv) h w))))"

subsection \<open>Runs of one channel\<close>

text \<open>
  A channel taken through a sequence of steps of \<open>process_buffer\<close>, each with the
  descriptor sets and the kernel's answer of that step.
\<close>

fun run_channel ::
  "channel_T \<Rightarrow> (int set \<times> int set \<times> io_answer) list \<Rightarrow> world \<Rightarrow> channel_T result \<times> world" where
  "run_channel channel [] w = (Return channel, w)"
| "run_channel channel ((read_fds, write_fds, a) # steps) w =
     (case process_buffer channel read_fds write_fds a w of
        (Return channel, w) \<Rightarrow> run_channel channel steps w
      | (Exit n, w) \<Rightarrow> (Exit n, w)
      | (Abort, w) \<Rightarrow> (Abort, w)
      | (Blocked, w) \<Rightarrow> (Blocked, w)
      | (Exec c, w) \<Rightarrow> (Exec c, w))"

text \<open>
  What POSIX promises of \<^verbatim>\<open>write(fd, buf, count)\<close>: it returns a negative value or the
  number of bytes written, which is at most \<open>count\<close>. \<open>answers_ok\<close> says that every answer
  to a write along a run keeps that promise.
\<close>

definition write_answer_ok :: "channel_T \<Rightarrow> io_answer \<Rightarrow> bool" where
  "write_answer_ok channel a =
     (sint (io_ret a) < 0 \<or>
      unat (io_ret a) \<le> unat (buffer_length channel - buffer_position channel))"

fun answers_ok :: "channel_T \<Rightarrow> (int set \<times> int set \<times> io_answer) list \<Rightarrow> world \<Rightarrow> bool" where
  "answers_ok channel [] w = True"
| "answers_ok channel ((read_fds, write_fds, a) # steps) w =
     ((state channel \<noteq> WRITING \<or> write_answer_ok channel a) \<and>
      (case process_buffer channel read_fds write_fds a w of
         (Return channel, w) \<Rightarrow> answers_ok channel steps w
       | _ \<Rightarrow> True))"

subsection \<open>Concrete values for instances\<close>

text \<open>
  A process at its start on a terminal of 24 lines and 80 columns in canonical mode, a
  channel as \<^verbatim>\<open>forward_all_io\<close> sets the incoming one up (master descriptor 3, the buffer
  zeroed), and kernel answers: \<open>n\<close> bytes accepted by a write, bytes delivered by a read,
  end of file, and a failure with \<^verbatim>\<open>EAGAIN\<close>.
\<close>

definition cooked :: termios where
  "cooked = \<lparr>c_iflag = 0x500, c_oflag = 0x5, c_cflag = 0xbf, c_lflag = 0x8a3b,
             c_cc = replicate 32 0\<rparr>"

definition world0 :: world where
  "world0 =
     \<lparr>program_name = [], should_set_terminal_size = False, mask_for_select = {},
      original_termios = \<lparr>c_iflag = 0, c_oflag = 0, c_cflag = 0, c_lflag = 0, c_cc = replicate 32 0\<rparr>,
      errno = 0, sigmask = {}, sigwinch_handler = False,
      stdin_termios = Some cooked,
      stdout_winsize = Some \<lparr>ws_row = 24, ws_col = 80, ws_xpixel = 0, ws_ypixel = 0\<rparr>,
      stderr = [], trace = []\<rparr>"

definition channel0 :: channel_T where
  "channel0 =
     \<lparr>from_fd = 0, to_fd = 3, state = READING, buffer = replicate BUFSIZ (CHR 0x00),
      buffer_position = 0, buffer_length = 0\<rparr>"

definition wrote :: "nat \<Rightarrow> io_answer" where
  "wrote n = \<lparr>io_ret = of_nat n, io_data = [], io_errno = 0\<rparr>"

definition delivered :: "string \<Rightarrow> io_answer" where
  "delivered bs = \<lparr>io_ret = of_nat (length bs), io_data = bs, io_errno = 0\<rparr>"

definition end_of_file :: io_answer where
  "end_of_file = \<lparr>io_ret = 0, io_data = [], io_errno = 0\<rparr>"

definition failed :: io_answer where
  "failed = \<lparr>io_ret = -1, io_data = [], io_errno = 11\<rparr>"

text \<open>The channel to the master holding the two bytes \<open>ls\<close>, none of them written yet.\<close>

definition holding :: channel_T where
  "holding =
     channel0\<lparr>state := WRITING, buffer := store ''ls'' (buffer channel0), buffer_length := 2\<rparr>"

text \<open>
  Three steps of the channel to the master: two bytes are read, one of them is written,
  and the next write fails.
\<close>

definition example_steps :: "(int set \<times> int set \<times> io_answer) list" where
  "example_steps = [({0}, {}, delivered ''ls''), ({}, {3}, wrote 1), ({}, {3}, failed)]"

text \<open>
  An event of the loop: the master is ready for reading and the read of the outgoing
  channel finds the end of the output.
\<close>

definition output_ends :: event where
  "output_ends = \<lparr>wake = Ready {3} {}, answer_incoming = failed, answer_outgoing = end_of_file\<rparr>"

subsection \<open>Kinds of calls\<close>

text \<open>
  The calls that move bytes through a channel, and the calls that set terminal attributes.
  \<open>keeps_terminal w w'\<close> says that from \<open>w\<close> to \<open>w'\<close> the terminal's attributes and their
  saved copy are the same, and that the calls made in between set no terminal attributes.
\<close>

fun channel_io :: "syscall \<Rightarrow> bool" where
  "channel_io (Sys_read fd n) = True"
| "channel_io (Sys_write fd bs) = True"
| "channel_io c = False"

fun is_tcsetattr :: "syscall \<Rightarrow> bool" where
  "is_tcsetattr (Sys_tcsetattr fd t) = True"
| "is_tcsetattr c = False"

definition keeps_terminal :: "world \<Rightarrow> world \<Rightarrow> bool" where
  "keeps_terminal w w' =
     (original_termios w' = original_termios w \<and> stdin_termios w' = stdin_termios w \<and>
      (\<exists>xs. trace w' = trace w @ xs \<and> (\<forall>x\<in>set xs. \<not> is_tcsetattr x)))"

text \<open>
  The two channels of the loop on master descriptor 3: the incoming one \<open>READING\<close>, the
  outgoing one \<open>WRITING\<close> with the two bytes \<open>ls\<close> to deliver.
\<close>

definition to_master :: channel_T where
  "to_master = channel0\<lparr>from_fd := 0, to_fd := 3, state := READING\<rparr>"

definition from_master :: channel_T where
  "from_master = holding\<lparr>from_fd := 3, to_fd := 1\<rparr>"

text \<open>
  The process once the handler is installed and \<open>SIGWINCH\<close> is blocked outside the wait,
  and the event of a window-size signal.
\<close>

definition running :: world where
  "running = world0\<lparr>sigmask := {SIGWINCH}, sigwinch_handler := True\<rparr>"

definition resized :: event where
  "resized = \<lparr>wake = Signalled SIGWINCH, answer_incoming = delivered ''x'', answer_outgoing = wrote 2\<rparr>"

text \<open>
  A whole run: \<^verbatim>\<open>ptwrap ls\<close> on a host where every call succeeds, the master is descriptor
  3, the child is process 100, the output ends at the first read and the child has
  exited with code 3.
\<close>

definition host0 :: host where
  "host0 =
     \<lparr>host_errno = 0, posix_openpt_ret = 3, grantpt_ret = 0, unlockpt_ret = 0,
      ptsname_ret = Some ''/dev/pts/5'', fork_ret = 100, tcsetattr_ret1 = 0, tcsetattr_ret2 = 0,
      incoming0 = channel0, outgoing0 = channel0, events = [output_ends],
      waitpid_ret = 100, wait_status = 0x300,
      setsid_ret = 101, close_stdin_ret = 0, open_ret = 0, close_stdout_ret = 0,
      dup_stdout_ret = 1, close_stderr_ret = 0, dup_stderr_ret = 2,
      tcgetpgrp_ret = 101, getpgrp_ret = 101, execvp_fails = False\<rparr>"

definition argv0 :: "string list" where
  "argv0 = [''ptwrap'', ''ls'']"

text \<open>An event of the loop: \<^verbatim>\<open>pselect\<close> fails with \<^verbatim>\<open>EBADF\<close>.\<close>

definition wait_fails :: event where
  "wait_fails = \<lparr>wake = Failed 9, answer_incoming = failed, answer_outgoing = failed\<rparr>"

section \<open>Properties\<close>

subsection \<open>The transition table of a channel\<close>

text \<open>
  Claim C2. One step of \<open>process_buffer\<close> follows the transition table, for every channel,
  every pair of descriptor sets, every answer of the kernel and every world. An
  \<open>INACTIVE\<close> channel is returned as it is. A \<open>READING\<close> channel whose source is not
  reported ready is returned as it is; when it is ready, a read of more than zero bytes
  makes the channel \<open>WRITING\<close> with the offset 0 and the length the number of bytes read,
  and a read that returns 0 or fails makes it \<open>INACTIVE\<close>. A \<open>WRITING\<close> channel whose
  destination is not reported ready is returned as it is; when it is ready (and the
  offset is below the length, as the assertion demands), a failed write, which includes
  one that would block, returns the channel unchanged, a write that does not reach the
  length advances the offset and stays \<open>WRITING\<close>, and a write that reaches the length
  makes the channel \<open>READING\<close>. Every one of these steps ends in \<open>Return\<close>: none exits or
  aborts.
\<close>

theorem process_buffer_transition_table:
  "(state c = INACTIVE \<longrightarrow> process_buffer c rfs wfs a w = (Return c, w)) \<and>
   (state c = READING \<and> from_fd c \<notin> rfs \<longrightarrow> process_buffer c rfs wfs a w = (Return c, w)) \<and>
   (state c = READING \<and> from_fd c \<in> rfs \<and> 0 < sint (io_ret a) \<longrightarrow>
      fst (process_buffer c rfs wfs a w) =
        Return (c\<lparr>state := WRITING, buffer := store (io_data a) (buffer c),
                 buffer_position := 0, buffer_length := io_ret a\<rparr>)) \<and>
   (state c = READING \<and> from_fd c \<in> rfs \<and> sint (io_ret a) \<le> 0 \<longrightarrow>
      fst (process_buffer c rfs wfs a w) = Return (c\<lparr>state := INACTIVE, buffer_position := 0\<rparr>)) \<and>
   (state c = WRITING \<and> to_fd c \<notin> wfs \<longrightarrow> process_buffer c rfs wfs a w = (Return c, w)) \<and>
   (state c = WRITING \<and> to_fd c \<in> wfs \<and> buffer_position c < buffer_length c \<and>
    sint (io_ret a) < 0 \<longrightarrow>
      fst (process_buffer c rfs wfs a w) = Return c) \<and>
   (state c = WRITING \<and> to_fd c \<in> wfs \<and> buffer_position c < buffer_length c \<and>
    0 \<le> sint (io_ret a) \<and> buffer_position c + io_ret a \<noteq> buffer_length c \<longrightarrow>
      fst (process_buffer c rfs wfs a w) =
        Return (c\<lparr>buffer_position := buffer_position c + io_ret a\<rparr>)) \<and>
   (state c = WRITING \<and> to_fd c \<in> wfs \<and> buffer_position c < buffer_length c \<and>
    0 \<le> sint (io_ret a) \<and> buffer_position c + io_ret a = buffer_length c \<longrightarrow>
      fst (process_buffer c rfs wfs a w) =
        Return (c\<lparr>state := READING, buffer_position := buffer_length c\<rparr>))"
  by (simp add: process_buffer_def sys_read_def sys_write_def Let_def)

text \<open>
  The table at work on the channel from the standard input to the master: two bytes are
  read, the end of file is read, a write fails, one byte of two is written, both bytes
  are written, and an inactive channel is offered ready descriptors.
\<close>

theorem process_buffer_transition_table_witness:
  "fst (process_buffer channel0 {0} {} (delivered ''ls'') world0) =
     Return (channel0\<lparr>state := WRITING, buffer := store ''ls'' (buffer channel0),
                     buffer_position := 0, buffer_length := 2\<rparr>) \<and>
   fst (process_buffer channel0 {0} {} end_of_file world0) =
     Return (channel0\<lparr>state := INACTIVE, buffer_position := 0\<rparr>) \<and>
   fst (process_buffer (channel0\<lparr>state := WRITING, buffer_length := 2\<rparr>) {} {3} failed world0) =
     Return (channel0\<lparr>state := WRITING, buffer_length := 2\<rparr>) \<and>
   fst (process_buffer (channel0\<lparr>state := WRITING, buffer_length := 2\<rparr>) {} {3} (wrote 1) world0) =
     Return (channel0\<lparr>state := WRITING, buffer_length := 2, buffer_position := 1\<rparr>) \<and>
   fst (process_buffer (channel0\<lparr>state := WRITING, buffer_length := 2\<rparr>) {} {3} (wrote 2) world0) =
     Return (channel0\<lparr>state := READING, buffer_length := 2, buffer_position := 2\<rparr>) \<and>
   process_buffer (channel0\<lparr>state := INACTIVE\<rparr>) {0} {3} (wrote 2) world0 =
     (Return (channel0\<lparr>state := INACTIVE\<rparr>), world0)"
proof -
  let ?wr = "channel0\<lparr>state := WRITING, buffer_length := 2\<rparr>"
  have 1: "state channel0 = READING \<and> from_fd channel0 \<in> {0} \<and> 0 < sint (io_ret (delivered ''ls''))"
    by (simp add: channel0_def delivered_def)
  have 2: "state channel0 = READING \<and> from_fd channel0 \<in> {0} \<and> sint (io_ret end_of_file) \<le> 0"
    by (simp add: channel0_def end_of_file_def)
  have 3: "state ?wr = WRITING \<and> to_fd ?wr \<in> {3} \<and> buffer_position ?wr < buffer_length ?wr \<and>
           sint (io_ret failed) < 0"
    by (simp add: channel0_def failed_def)
  have 4: "state ?wr = WRITING \<and> to_fd ?wr \<in> {3} \<and> buffer_position ?wr < buffer_length ?wr \<and>
           0 \<le> sint (io_ret (wrote 1)) \<and> buffer_position ?wr + io_ret (wrote 1) \<noteq> buffer_length ?wr"
    by (simp add: channel0_def wrote_def)
  have 5: "state ?wr = WRITING \<and> to_fd ?wr \<in> {3} \<and> buffer_position ?wr < buffer_length ?wr \<and>
           0 \<le> sint (io_ret (wrote 2)) \<and> buffer_position ?wr + io_ret (wrote 2) = buffer_length ?wr"
    by (simp add: channel0_def wrote_def)
  have 6: "state (channel0\<lparr>state := INACTIVE\<rparr>) = INACTIVE" by simp
  note t = process_buffer_transition_table
  show ?thesis
    using 1 2 3 4 5 6
      t [of channel0 "{0}" "{}" "delivered ''ls''" world0]
      t [of channel0 "{0}" "{}" end_of_file world0]
      t [of ?wr "{}" "{3}" failed world0]
      t [of ?wr "{}" "{3}" "wrote 1" world0]
      t [of ?wr "{}" "{3}" "wrote 2" world0]
      t [of "channel0\<lparr>state := INACTIVE\<rparr>" "{0}" "{3}" "wrote 2" world0]
    by (simp add: delivered_def wrote_def channel0_def)
qed

subsection \<open>A failed write\<close>

text \<open>
  Claim C10. When the write of a \<open>WRITING\<close> channel fails (a negative return value), the
  step returns the channel as it was: the state, the buffer, the offset and the length
  are those before the step. The bytes offered to the kernel in the failed call are the
  bytes from the offset up to the length, and the next step that finds the destination
  ready offers exactly these bytes again, so a write error drops no byte that was read.
\<close>

theorem write_error_leaves_channel:
  assumes "state c = WRITING" and "to_fd c \<in> wfs"
    and "buffer_position c < buffer_length c" and "sint (io_ret a) < 0"
  shows "fst (process_buffer c rfs wfs a w) = Return c \<and>
         trace (snd (process_buffer c rfs wfs a w)) =
           trace w @ [Sys_write (to_fd c)
             (take (unat (buffer_length c - buffer_position c))
                (drop (unat (buffer_position c)) (buffer c)))] \<and>
         (\<forall>c' rfs' wfs' a' w'.
            fst (process_buffer c rfs wfs a w) = Return c' \<and> to_fd c' \<in> wfs' \<longrightarrow>
            trace (snd (process_buffer c' rfs' wfs' a' w')) =
              trace w' @ [Sys_write (to_fd c)
                (take (unat (buffer_length c - buffer_position c))
                   (drop (unat (buffer_position c)) (buffer c)))])"
  using assms
  by (auto simp add: process_buffer_def sys_write_def sys_def Let_def split: if_splits)

text \<open>
  The channel that holds \<open>ls\<close>: the write fails, the channel is the same, and the next
  write is offered \<open>ls\<close> again.
\<close>

theorem write_error_leaves_channel_witness:
  "fst (process_buffer holding {} {3} failed world0) = Return holding \<and>
   trace (snd (process_buffer holding {} {3} failed world0)) = [Sys_write 3 ''ls''] \<and>
   trace (snd (process_buffer holding {} {3} (wrote 2) world0)) = [Sys_write 3 ''ls'']"
proof -
  have h: "state holding = WRITING" "to_fd holding \<in> {3}"
    "buffer_position holding < buffer_length holding" "sint (io_ret failed) < 0"
    by (simp_all add: holding_def channel0_def failed_def)
  have b: "take (unat (buffer_length holding - buffer_position holding))
             (drop (unat (buffer_position holding)) (buffer holding)) = ''ls''"
    by (simp add: holding_def channel0_def store_def BUFSIZ_def)
  have t: "trace world0 = []" "to_fd holding = 3"
    by (simp_all add: world0_def holding_def channel0_def)
  note T = write_error_leaves_channel [OF h, of "{}" world0, unfolded b t]
  from T have 1: "fst (process_buffer holding {} {3} failed world0) = Return holding"
    by (rule conjunct1)
  from T have 2: "trace (snd (process_buffer holding {} {3} failed world0)) = [] @ [Sys_write 3 ''ls'']"
    by (rule conjunct2 [THEN conjunct1])
  from T have "fst (process_buffer holding {} {3} failed world0) = Return holding \<and> to_fd holding \<in> {3} \<longrightarrow>
      trace (snd (process_buffer holding {} {3} (wrote 2) world0)) = trace world0 @ [Sys_write 3 ''ls'']"
    by blast
  with 1 t have 3: "trace (snd (process_buffer holding {} {3} (wrote 2) world0)) = [Sys_write 3 ''ls'']"
    by simp
  from 1 2 3 show ?thesis by simp
qed

subsection \<open>The invariant of a channel\<close>

text \<open>
  A step keeps the invariant that a \<open>WRITING\<close> channel has its offset below its length,
  provided the kernel's answer to a write is within what POSIX allows; the step then
  ends in \<open>Return\<close>, so the assertion has held.
\<close>

lemma process_buffer_keeps_invariant:
  assumes "state c = WRITING \<longrightarrow> buffer_position c < buffer_length c"
    and "state c \<noteq> WRITING \<or> write_answer_ok c a"
  shows "\<exists>c' w'. process_buffer c rfs wfs a w = (Return c', w') \<and>
           (state c' = WRITING \<longrightarrow> buffer_position c' < buffer_length c')"
proof (cases "state c")
  case INACTIVE
  then show ?thesis by (simp add: process_buffer_def)
next
  case READING
  have "0 < sint x \<Longrightarrow> 0 < x" for x :: "64 word"
    by (metis sint_0 word_gt_0 less_irrefl)
  with READING show ?thesis
    by (simp add: process_buffer_def sys_read_def Let_def)
next
  case WRITING
  with assms have lt: "buffer_position c < buffer_length c" and ok: "write_answer_ok c a"
    by simp_all
  have step: "p + s < l" if "p < l" "0 \<le> sint s" "unat s \<le> unat (l - p)" "p + s \<noteq> l"
    for p s l :: "64 word"
    using that by unat_arith
  show ?thesis
  proof (cases "0 \<le> sint (io_ret a)")
    case True
    with ok have "unat (io_ret a) \<le> unat (buffer_length c - buffer_position c)"
      by (simp add: write_answer_ok_def)
    with WRITING lt True step [of "buffer_position c" "buffer_length c" "io_ret a"] show ?thesis
      by (simp add: process_buffer_def sys_write_def Let_def)
  next
    case False
    with WRITING lt show ?thesis
      by (simp add: process_buffer_def sys_write_def Let_def)
  qed
qed

lemma run_channel_keeps_invariant:
  "(state c = WRITING \<longrightarrow> buffer_position c < buffer_length c) \<Longrightarrow> answers_ok c steps w \<Longrightarrow>
   \<exists>c' w'. run_channel c steps w = (Return c', w') \<and>
     (state c' = WRITING \<longrightarrow> buffer_position c' < buffer_length c')"
proof (induction steps arbitrary: c w)
  case Nil
  then show ?case by simp
next
  case (Cons x steps)
  obtain rfs wfs a where x: "x = (rfs, wfs, a)" by (cases x)
  from Cons.prems(2) x have ok: "state c \<noteq> WRITING \<or> write_answer_ok c a" by simp
  from process_buffer_keeps_invariant [OF Cons.prems(1) ok, of rfs wfs w]
  obtain c1 w1 where s: "process_buffer c rfs wfs a w = (Return c1, w1)"
    and i: "state c1 = WRITING \<longrightarrow> buffer_position c1 < buffer_length c1" by blast
  from Cons.prems(2) x s have "answers_ok c1 steps w1" by simp
  from Cons.IH [OF i this] x s show ?case by simp
qed

lemma run_channel_inactive:
  "state c = INACTIVE \<Longrightarrow> run_channel c steps w = (Return c, w)"
  by (induction steps arbitrary: w) (auto simp add: process_buffer_def)

text \<open>
  Claim C6. A channel starts in \<open>READING\<close>, as \<^verbatim>\<open>forward_all_io\<close> sets it, with whatever
  the other fields hold. After any sequence of steps in which every write returns a
  negative value or at most the count it was given, the run has returned a channel, so
  no step has failed the assertion, and if that channel is \<open>WRITING\<close> its offset is
  strictly below its length. A channel that is \<open>INACTIVE\<close> is returned unchanged, with
  the world unchanged, by every sequence of steps.
\<close>

theorem writing_offset_below_length:
  "(state c = READING \<and> answers_ok c steps w \<longrightarrow>
      (\<exists>c' w'. run_channel c steps w = (Return c', w') \<and>
         (state c' = WRITING \<longrightarrow> buffer_position c' < buffer_length c'))) \<and>
   (state c = INACTIVE \<longrightarrow> run_channel c steps w = (Return c, w))"
  using run_channel_keeps_invariant [of c steps w] run_channel_inactive [of c steps w]
  by simp

text \<open>
  The three example steps leave the channel \<open>WRITING\<close> with offset 1 and length 2; the
  same steps leave an inactive channel as it is.
\<close>

theorem writing_offset_below_length_witness:
  "state channel0 = READING \<and> answers_ok channel0 example_steps world0 \<and>
   fst (run_channel channel0 example_steps world0) = Return (holding\<lparr>buffer_position := 1\<rparr>) \<and>
   state (holding\<lparr>buffer_position := 1\<rparr>) = WRITING \<and>
   buffer_position (holding\<lparr>buffer_position := 1\<rparr>) < buffer_length (holding\<lparr>buffer_position := 1\<rparr>) \<and>
   run_channel (channel0\<lparr>state := INACTIVE\<rparr>) example_steps world0 =
     (Return (channel0\<lparr>state := INACTIVE\<rparr>), world0)"
proof -
  have r: "state channel0 = READING"
    by (simp add: channel0_def)
  have ok: "answers_ok channel0 example_steps world0"
    by (simp add: example_steps_def channel0_def world0_def process_buffer_def sys_read_def
        sys_write_def sys_def Let_def delivered_def wrote_def failed_def write_answer_ok_def)
  have run: "fst (run_channel channel0 example_steps world0) = Return (holding\<lparr>buffer_position := 1\<rparr>)"
    by (simp add: example_steps_def channel0_def holding_def world0_def process_buffer_def
        sys_read_def sys_write_def sys_def Let_def delivered_def wrote_def failed_def)
  have st: "state (holding\<lparr>buffer_position := 1\<rparr>) = WRITING"
    by (simp add: holding_def)
  from writing_offset_below_length [of channel0 example_steps world0] r ok
  obtain c' w' where "run_channel channel0 example_steps world0 = (Return c', w')"
    and "state c' = WRITING \<longrightarrow> buffer_position c' < buffer_length c'"
    by blast
  with run st
  have lt: "buffer_position (holding\<lparr>buffer_position := 1\<rparr>) < buffer_length (holding\<lparr>buffer_position := 1\<rparr>)"
    by simp
  have "state (channel0\<lparr>state := INACTIVE\<rparr>) = INACTIVE"
    by simp
  with writing_offset_below_length [of "channel0\<lparr>state := INACTIVE\<rparr>" example_steps world0]
  have "run_channel (channel0\<lparr>state := INACTIVE\<rparr>) example_steps world0 =
     (Return (channel0\<lparr>state := INACTIVE\<rparr>), world0)"
    by blast
  with r ok run st lt show ?thesis by blast
qed

subsection \<open>When the forwarding loop ends\<close>

lemma forward_loop_returns_inactive:
  "forward_loop m incoming outgoing evs w = (Return (i', o'), w') \<Longrightarrow> state o' = INACTIVE"
proof (induction evs arbitrary: incoming outgoing w)
  case Nil
  then show ?case by (simp split: if_splits)
next
  case (Cons ev evs)
  show ?case
  proof (cases "state outgoing = INACTIVE")
    case True
    with Cons.prems show ?thesis by simp
  next
    case False
    with Cons.prems Cons.IH show ?thesis
      by (auto split: prod.splits result.splits)
  qed
qed

text \<open>
  Claim C3. The loop is left through its condition exactly when the outgoing channel (from
  the master to the standard output) is \<open>INACTIVE\<close>. With the outgoing channel
  \<open>INACTIVE\<close> the loop returns at once, whatever the state of the incoming channel and
  whatever events remain. With the outgoing channel not \<open>INACTIVE\<close> it does not return:
  it runs the body on the next event and goes on from the channels the body leaves (or
  waits, when there is no event), again whatever the state of the incoming channel.
  Whenever the loop, or \<^verbatim>\<open>forward_all_io\<close> as a whole, returns, the outgoing channel is
  \<open>INACTIVE\<close>. The only other ways out of the loop end the process: the fatal failure of
  \<^verbatim>\<open>pselect\<close> and a failed assertion.
\<close>

theorem forward_loop_ends_with_outgoing:
  "(state outgoing = INACTIVE \<longrightarrow>
      forward_loop m incoming outgoing evs w = (Return (incoming, outgoing), w)) \<and>
   (state outgoing \<noteq> INACTIVE \<longrightarrow>
      forward_loop m incoming outgoing [] w = (Blocked, w) \<and>
      forward_loop m incoming outgoing (ev # evs) w =
        (case loop_body m incoming outgoing ev w of
           (Return (incoming, outgoing), w) \<Rightarrow> forward_loop m incoming outgoing evs w
         | (Exit n, w) \<Rightarrow> (Exit n, w)
         | (Abort, w) \<Rightarrow> (Abort, w)
         | (Blocked, w) \<Rightarrow> (Blocked, w)
         | (Exec c, w) \<Rightarrow> (Exec c, w))) \<and>
   (forward_loop m incoming outgoing evs w = (Return (i', o'), w') \<longrightarrow> state o' = INACTIVE) \<and>
   (forward_all_io m incoming outgoing evs w = (Return (i', o'), w') \<longrightarrow> state o' = INACTIVE)"
proof -
  have 1: "state outgoing = INACTIVE \<longrightarrow>
      forward_loop m incoming outgoing evs w = (Return (incoming, outgoing), w)"
    by (cases evs) simp_all
  have 2: "forward_all_io m incoming outgoing evs w = (Return (i', o'), w') \<longrightarrow> state o' = INACTIVE"
    unfolding forward_all_io_def Let_def by (blast dest: forward_loop_returns_inactive)
  from 1 2 show ?thesis
    by (auto dest: forward_loop_returns_inactive)
qed

text \<open>
  With the outgoing channel inactive and the incoming one still \<open>READING\<close> the loop
  returns and leaves its event unused; with the incoming channel inactive and the
  outgoing one \<open>READING\<close> it waits; and a run of \<^verbatim>\<open>forward_all_io\<close> on master descriptor
  3 returns when the output ends, the incoming channel still \<open>READING\<close>.
\<close>

theorem forward_loop_ends_with_outgoing_witness:
  "state (channel0\<lparr>state := INACTIVE\<rparr>) = INACTIVE \<and>
   state channel0 = READING \<and>
   forward_loop 3 channel0 (channel0\<lparr>state := INACTIVE\<rparr>) [output_ends] world0 =
     (Return (channel0, channel0\<lparr>state := INACTIVE\<rparr>), world0) \<and>
   forward_loop 3 (channel0\<lparr>state := INACTIVE\<rparr>) channel0 [] world0 = (Blocked, world0) \<and>
   fst (forward_all_io 3 channel0 channel0 [output_ends] world0) =
     Return (channel0\<lparr>from_fd := 0, to_fd := 3, state := READING\<rparr>,
             channel0\<lparr>from_fd := 3, to_fd := 1, state := INACTIVE\<rparr>) \<and>
   state (snd (channel0\<lparr>from_fd := 0, to_fd := 3, state := READING\<rparr>,
               channel0\<lparr>from_fd := 3, to_fd := 1, state := INACTIVE\<rparr>)) = INACTIVE"
proof -
  note T = forward_loop_ends_with_outgoing
  have a: "state (channel0\<lparr>state := INACTIVE\<rparr>) = INACTIVE"
    by simp
  have b: "state channel0 = READING" "state channel0 \<noteq> INACTIVE"
    by (simp_all add: channel0_def)
  from a T [of "channel0\<lparr>state := INACTIVE\<rparr>" 3 channel0 "[output_ends]" world0]
  have c: "forward_loop 3 channel0 (channel0\<lparr>state := INACTIVE\<rparr>) [output_ends] world0 =
     (Return (channel0, channel0\<lparr>state := INACTIVE\<rparr>), world0)"
    by blast
  from b T [of channel0 3 "channel0\<lparr>state := INACTIVE\<rparr>" "[]" world0]
  have d: "forward_loop 3 (channel0\<lparr>state := INACTIVE\<rparr>) channel0 [] world0 = (Blocked, world0)"
    by blast
  have e: "fst (forward_all_io 3 channel0 channel0 [output_ends] world0) =
     Return (channel0\<lparr>from_fd := 0, to_fd := 3, state := READING\<rparr>,
             channel0\<lparr>from_fd := 3, to_fd := 1, state := INACTIVE\<rparr>)"
    by (simp add: forward_all_io_def loop_body_def set_fd_set_def pselect_def output_ends_def
        process_buffer_def sys_read_def sys_def and_then_def Let_def channel0_def world0_def
        end_of_file_def STDIN_FILENO_def STDOUT_FILENO_def)
  then obtain w' where "forward_all_io 3 channel0 channel0 [output_ends] world0 =
     (Return (channel0\<lparr>from_fd := 0, to_fd := 3, state := READING\<rparr>,
              channel0\<lparr>from_fd := 3, to_fd := 1, state := INACTIVE\<rparr>), w')"
    by (cases "forward_all_io 3 channel0 channel0 [output_ends] world0") simp
  with T [where outgoing = channel0 and m = 3 and incoming = channel0 and evs = "[output_ends]"
      and w = world0 and i' = "channel0\<lparr>from_fd := 0, to_fd := 3, state := READING\<rparr>"
      and o' = "channel0\<lparr>from_fd := 3, to_fd := 1, state := INACTIVE\<rparr>" and w' = w']
  have f: "state (snd (channel0\<lparr>from_fd := 0, to_fd := 3, state := READING\<rparr>,
               channel0\<lparr>from_fd := 3, to_fd := 1, state := INACTIVE\<rparr>)) = INACTIVE"
    by simp
  from a b c d e f show ?thesis by blast
qed

subsection \<open>What a step and a pass of the loop do to the world\<close>

text \<open>
  A step of a channel changes \<open>errno\<close> and appends its own call to the trace, nothing
  else. \<^verbatim>\<open>set_terminal_size\<close> clears the flag, queries the standard output and, with an
  answer, sets the size of the descriptor it was given. A pass of the loop is spelt out
  for each kind of wake-up; its first call is \<^verbatim>\<open>pselect\<close> on the sets the two channels
  registered, and neither it nor the whole loop touches the terminal's attributes.
\<close>

lemma process_buffer_frame:
  "\<exists>e xs. snd (process_buffer c rfs wfs a w) = w\<lparr>errno := e, trace := trace w @ xs\<rparr> \<and>
     (\<forall>x\<in>set xs. channel_io x)"
proof -
  have id: "w = w\<lparr>errno := errno w, trace := trace w @ []\<rparr>" by simp
  show ?thesis
    apply (cases "state c")
    subgoal
      apply (rule exI [of _ "errno w"], rule exI [of _ "[]"])
      apply (simp add: process_buffer_def) done
    subgoal
      apply (cases "from_fd c \<in> rfs")
       apply (rule exI [of _ "if sint (io_ret a) < 0 then io_errno a else errno w"], rule exI [of _ "[Sys_read (from_fd c) BUFSIZ]"])
       apply (simp add: process_buffer_def sys_read_def sys_def Let_def)
      apply (rule exI [of _ "errno w"], rule exI [of _ "[]"])
      apply (simp add: process_buffer_def) done
    subgoal
      apply (cases "to_fd c \<in> wfs")
       apply (cases "buffer_position c < buffer_length c")
        apply (rule exI [of _ "if sint (io_ret a) < 0 then io_errno a else errno w"],
          rule exI [of _ "[Sys_write (to_fd c) (take (unat (buffer_length c - buffer_position c))
                     (drop (unat (buffer_position c)) (buffer c)))]"])
        apply (simp add: process_buffer_def sys_write_def sys_def Let_def)
       apply (rule exI [of _ "errno w"], rule exI [of _ "[]"])
       apply (simp add: process_buffer_def)
      apply (rule exI [of _ "errno w"], rule exI [of _ "[]"])
      apply (simp add: process_buffer_def) done
    done
qed

lemma set_terminal_size_frame:
  "set_terminal_size fd w =
     w\<lparr>should_set_terminal_size := False,
       trace := trace w @ Sys_TIOCGWINSZ STDOUT_FILENO #
         (case stdout_winsize w of Some sz \<Rightarrow> [Sys_TIOCSWINSZ fd sz] | None \<Rightarrow> [])\<rparr>"
  by (simp add: set_terminal_size_def ioctl_TIOCGWINSZ_def ioctl_TIOCSWINSZ_def Let_def
      split: option.splits)

lemma set_fd_set_eq:
  "set_fd_set outgoing (set_fd_set incoming ({}, {})) =
     ((if state incoming = READING then {from_fd incoming} else {}) \<union>
      (if state outgoing = READING then {from_fd outgoing} else {}),
      (if state incoming = WRITING then {to_fd incoming} else {}) \<union>
      (if state outgoing = WRITING then {to_fd outgoing} else {}))"
  by (cases "state incoming"; cases "state outgoing") (auto simp add: set_fd_set_def)


lemma both_channels_frame:
  "\<exists>e xs. snd (and_then (process_buffer i rs ws a w) (\<lambda>i w.
              and_then (process_buffer out rs ws b w) (\<lambda>out w. (Return (i, out), w)))) =
            w\<lparr>errno := e, trace := trace w @ xs\<rparr> \<and> (\<forall>x\<in>set xs. channel_io x)"
proof -
  obtain r1 w1 where p1: "process_buffer i rs ws a w = (r1, w1)"
    by (cases "process_buffer i rs ws a w")
  from process_buffer_frame [of i rs ws a w] p1
  obtain e1 xs1 where w1: "w1 = w\<lparr>errno := e1, trace := trace w @ xs1\<rparr>"
    and x1: "\<forall>x\<in>set xs1. channel_io x" by auto
  show ?thesis
  proof (cases r1)
    case (Return c1)
    obtain r2 w2 where p2: "process_buffer out rs ws b w1 = (r2, w2)"
      by (cases "process_buffer out rs ws b w1")
    from process_buffer_frame [of out rs ws b w1] p2
    obtain e2 xs2 where w2: "w2 = w1\<lparr>errno := e2, trace := trace w1 @ xs2\<rparr>"
      and x2: "\<forall>x\<in>set xs2. channel_io x" by auto
    from w1 w2 have w2': "w2 = w\<lparr>errno := e2, trace := trace w @ (xs1 @ xs2)\<rparr>" by simp
    from x1 x2 have x12: "\<forall>x\<in>set (xs1 @ xs2). channel_io x" by auto
    have "snd (and_then (process_buffer i rs ws a w) (\<lambda>i w.
              and_then (process_buffer out rs ws b w) (\<lambda>out w. (Return (i, out), w)))) = w2"
      using p1 p2 Return by (cases r2) (simp_all add: and_then_def)
    with w2' x12 show ?thesis by blast
  next
    case (Exit n)
    with p1 w1 x1 show ?thesis by (auto simp add: and_then_def)
  next
    case Abort
    with p1 w1 x1 show ?thesis by (auto simp add: and_then_def)
  next
    case Blocked
    with p1 w1 x1 show ?thesis by (auto simp add: and_then_def)
  next
    case (Exec c)
    with p1 w1 x1 show ?thesis by (auto simp add: and_then_def)
  qed
qed


lemma loop_body_Ready:
  "wake ev = Ready r wr \<Longrightarrow>
   loop_body m i out ev w =
     (let R = fst (set_fd_set out (set_fd_set i ({}, {})));
          W = snd (set_fd_set out (set_fd_set i ({}, {})));
          rs = R \<inter> r \<inter> {0..<m + 1};
          ws = W \<inter> wr \<inter> {0..<m + 1};
          w = sys (Sys_pselect (m + 1) R W (mask_for_select w)) 0 0 w
      in and_then (process_buffer i rs ws (answer_incoming ev) w) (\<lambda>i w.
           and_then (process_buffer out rs ws (answer_outgoing ev) w)
             (\<lambda>out w. (Return (i, out), w))))"
  by (simp add: loop_body_def pselect_def Let_def sys_def)

lemma loop_body_Signalled:
  "wake ev = Signalled sig \<Longrightarrow>
   loop_body m i out ev w =
     (let R = fst (set_fd_set out (set_fd_set i ({}, {})));
          W = snd (set_fd_set out (set_fd_set i ({}, {})));
          w1 = (if sig = SIGWINCH \<and> sigwinch_handler w \<and> SIGWINCH \<notin> mask_for_select w
                then receive_sigwinch sig w else w);
          w2 = sys (Sys_pselect (m + 1) R W (mask_for_select w)) (-1) EINTR w1
      in (Return (i, out),
          if should_set_terminal_size w2 then set_terminal_size m w2 else w2))"
  by (simp add: loop_body_def pselect_def Let_def sys_def receive_sigwinch_def)

lemma loop_body_Failed:
  "wake ev = Failed e \<Longrightarrow>
   loop_body m i out ev w =
     (let R = fst (set_fd_set out (set_fd_set i ({}, {})));
          W = snd (set_fd_set out (set_fd_set i ({}, {})));
          w1 = sys (Sys_pselect (m + 1) R W (mask_for_select w)) (-1) e w
      in if e \<noteq> EINTR then errno_exit ''cannot find file descriptor to forward'' w1
         else (Return (i, out),
               if should_set_terminal_size w1 then set_terminal_size m w1 else w1))"
  by (simp add: loop_body_def pselect_def Let_def sys_def)

lemma keeps_terminal_refl: "keeps_terminal w w"
  by (simp add: keeps_terminal_def)

lemma keeps_terminal_trans:
  "keeps_terminal w w' \<Longrightarrow> keeps_terminal w' w'' \<Longrightarrow> keeps_terminal w w''"
  by (auto simp add: keeps_terminal_def)

lemma loop_body_first_call:
  "\<exists>xs. trace (snd (loop_body m i out ev w)) =
      trace w @
        Sys_pselect (m + 1) (fst (set_fd_set out (set_fd_set i ({}, {}))))
          (snd (set_fd_set out (set_fd_set i ({}, {})))) (mask_for_select w) # xs"
proof (cases "wake ev")
  case (Ready r wr)
  let ?R = "fst (set_fd_set out (set_fd_set i ({}, {})))"
  let ?W = "snd (set_fd_set out (set_fd_set i ({}, {})))"
  let ?w1 = "sys (Sys_pselect (m + 1) ?R ?W (mask_for_select w)) 0 0 w"
  from both_channels_frame [of i "?R \<inter> r \<inter> {0..<m + 1}" "?W \<inter> wr \<inter> {0..<m + 1}"
      "answer_incoming ev" ?w1 out "answer_outgoing ev"]
  show ?thesis
    unfolding loop_body_Ready [OF Ready] Let_def by (auto simp add: sys_def)
next
  case (Signalled sig)
  show ?thesis
    unfolding loop_body_Signalled [OF Signalled] Let_def
    by (simp add: sys_def set_terminal_size_frame receive_sigwinch_def)
next
  case (Failed e)
  show ?thesis
    unfolding loop_body_Failed [OF Failed] Let_def
    by (simp add: sys_def set_terminal_size_frame errno_exit_def)
qed

lemma loop_body_keeps_terminal: "keeps_terminal w (snd (loop_body m i out ev w))"
proof (cases "wake ev")
  case (Ready r wr)
  let ?R = "fst (set_fd_set out (set_fd_set i ({}, {})))"
  let ?W = "snd (set_fd_set out (set_fd_set i ({}, {})))"
  let ?w1 = "sys (Sys_pselect (m + 1) ?R ?W (mask_for_select w)) 0 0 w"
  have nt: "channel_io x \<Longrightarrow> \<not> is_tcsetattr x" for x by (cases x) simp_all
  from both_channels_frame [of i "?R \<inter> r \<inter> {0..<m + 1}" "?W \<inter> wr \<inter> {0..<m + 1}"
      "answer_incoming ev" ?w1 out "answer_outgoing ev"]
  show ?thesis
    unfolding loop_body_Ready [OF Ready] Let_def keeps_terminal_def
    by (auto simp add: sys_def nt)
next
  case (Signalled sig)
  show ?thesis
    unfolding loop_body_Signalled [OF Signalled] Let_def keeps_terminal_def
    by (auto simp add: sys_def set_terminal_size_frame receive_sigwinch_def split: option.splits)
next
  case (Failed e)
  show ?thesis
    unfolding loop_body_Failed [OF Failed] Let_def keeps_terminal_def
    by (auto simp add: sys_def set_terminal_size_frame errno_exit_def split: option.splits)
qed

lemma forward_loop_keeps_terminal: "keeps_terminal w (snd (forward_loop m i out evs w))"
proof (induction evs arbitrary: i out w)
  case Nil
  show ?case by (simp add: keeps_terminal_refl)
next
  case (Cons ev evs)
  show ?case
  proof (cases "state out = INACTIVE")
    case True
    then show ?thesis by (simp add: keeps_terminal_refl)
  next
    case False
    obtain r w1 where lb: "loop_body m i out ev w = (r, w1)"
      by (cases "loop_body m i out ev w")
    with loop_body_keeps_terminal [of w m i out ev] have k: "keeps_terminal w w1" by simp
    show ?thesis
    proof (cases r)
      case (Return p)
      obtain i1 o1 where p: "p = (i1, o1)" by (cases p)
      from False lb Return p
      have "forward_loop m i out (ev # evs) w = forward_loop m i1 o1 evs w1" by simp
      with keeps_terminal_trans [OF k Cons.IH [of w1 i1 o1]] show ?thesis by simp
    qed (use False lb k in simp_all)
  qed
qed

subsection \<open>What each channel registers for the wait\<close>

text \<open>
  Claim C5. \<open>set_fd_set\<close> adds, to the two sets it is given, nothing for an \<open>INACTIVE\<close>
  channel, the source descriptor to the read set for a \<open>READING\<close> channel and the
  destination descriptor to the write set for a \<open>WRITING\<close> channel. Every pass of the loop
  starts with a \<^verbatim>\<open>pselect\<close> whose read and write sets are exactly what the two channels
  registered into empty sets. For the descriptors \<^verbatim>\<open>forward_all_io\<close> assigns (the master
  above the three standard descriptors, as \<^verbatim>\<open>prepare_master_pseudo_terminal\<close> ensures),
  the two sets together hold one descriptor for each channel that is not \<open>INACTIVE\<close>.
\<close>

theorem channel_registers_one_interest:
  "(state c = INACTIVE \<longrightarrow> set_fd_set c (rs, ws) = (rs, ws)) \<and>
   (state c = READING \<longrightarrow> set_fd_set c (rs, ws) = (insert (from_fd c) rs, ws)) \<and>
   (state c = WRITING \<longrightarrow> set_fd_set c (rs, ws) = (rs, insert (to_fd c) ws)) \<and>
   (\<exists>xs. trace (snd (loop_body m i out ev w)) =
      trace w @
        Sys_pselect (m + 1)
          ((if state i = READING then {from_fd i} else {}) \<union>
           (if state out = READING then {from_fd out} else {}))
          ((if state i = WRITING then {to_fd i} else {}) \<union>
           (if state out = WRITING then {to_fd out} else {}))
          (mask_for_select w) # xs) \<and>
   (from_fd i = STDIN_FILENO \<and> to_fd i = m \<and> from_fd out = m \<and> to_fd out = STDOUT_FILENO \<and>
    STDERR_FILENO < m \<longrightarrow>
      card ((if state i = READING then {from_fd i} else {}) \<union>
            (if state out = READING then {from_fd out} else {})) +
      card ((if state i = WRITING then {to_fd i} else {}) \<union>
            (if state out = WRITING then {to_fd out} else {})) =
      (if state i = INACTIVE then 0 else 1) + (if state out = INACTIVE then 0 else 1))"
proof -
  have 1: "(state c = INACTIVE \<longrightarrow> set_fd_set c (rs, ws) = (rs, ws)) \<and>
   (state c = READING \<longrightarrow> set_fd_set c (rs, ws) = (insert (from_fd c) rs, ws)) \<and>
   (state c = WRITING \<longrightarrow> set_fd_set c (rs, ws) = (rs, insert (to_fd c) ws))"
    by (simp add: set_fd_set_def)
  have 2: "\<exists>xs. trace (snd (loop_body m i out ev w)) =
      trace w @
        Sys_pselect (m + 1)
          ((if state i = READING then {from_fd i} else {}) \<union>
           (if state out = READING then {from_fd out} else {}))
          ((if state i = WRITING then {to_fd i} else {}) \<union>
           (if state out = WRITING then {to_fd out} else {}))
          (mask_for_select w) # xs"
    using loop_body_first_call [of m i out ev w] by (simp add: set_fd_set_eq)
  have 3: "from_fd i = STDIN_FILENO \<and> to_fd i = m \<and> from_fd out = m \<and> to_fd out = STDOUT_FILENO \<and>
    STDERR_FILENO < m \<longrightarrow>
      card ((if state i = READING then {from_fd i} else {}) \<union>
            (if state out = READING then {from_fd out} else {})) +
      card ((if state i = WRITING then {to_fd i} else {}) \<union>
            (if state out = WRITING then {to_fd out} else {})) =
      (if state i = INACTIVE then 0 else 1) + (if state out = INACTIVE then 0 else 1)"
    by (cases "state i"; cases "state out")
      (auto simp add: STDIN_FILENO_def STDOUT_FILENO_def STDERR_FILENO_def)
  from 1 2 3 show ?thesis by blast
qed

text \<open>
  On master descriptor 3: the reading incoming channel registers descriptor 0 for reading,
  the writing outgoing channel descriptor 1 for writing, an inactive channel nothing, and
  the pass of the loop calls \<^verbatim>\<open>pselect\<close> with these two sets.
\<close>

theorem channel_registers_one_interest_witness:
  "set_fd_set to_master ({}, {}) = ({0}, {}) \<and>
   set_fd_set from_master ({}, {}) = ({}, {1}) \<and>
   set_fd_set (to_master\<lparr>state := INACTIVE\<rparr>) ({}, {}) = ({}, {}) \<and>
   hd (trace (snd (loop_body 3 to_master from_master output_ends world0))) =
     Sys_pselect 4 {0} {1} {} \<and>
   card (fst (set_fd_set from_master (set_fd_set to_master ({}, {})))) +
   card (snd (set_fd_set from_master (set_fd_set to_master ({}, {})))) = 2"
proof -
  note T = channel_registers_one_interest
  have s: "state to_master = READING" "state from_master = WRITING"
    "state (to_master\<lparr>state := INACTIVE\<rparr>) = INACTIVE"
    "from_fd to_master = 0" "to_fd to_master = 3" "from_fd from_master = 3" "to_fd from_master = 1"
    by (simp_all add: to_master_def from_master_def holding_def channel0_def)
  from s T [of to_master "{}" "{}"]
  have a: "set_fd_set to_master ({}, {}) = ({0}, {})" by simp
  from s T [of from_master "{}" "{}"]
  have b: "set_fd_set from_master ({}, {}) = ({}, {1})" by simp
  from s T [of "to_master\<lparr>state := INACTIVE\<rparr>" "{}" "{}"]
  have c: "set_fd_set (to_master\<lparr>state := INACTIVE\<rparr>) ({}, {}) = ({}, {})" by simp
  from T [of c rs ws 3 to_master from_master output_ends world0]
  obtain xs where "trace (snd (loop_body 3 to_master from_master output_ends world0)) =
      trace world0 @ Sys_pselect (3 + 1) ({0} \<union> {}) ({} \<union> {1}) (mask_for_select world0) # xs"
    unfolding s by auto
  then have d: "hd (trace (snd (loop_body 3 to_master from_master output_ends world0))) =
     Sys_pselect 4 {0} {1} {}"
    by (simp add: world0_def)
  from s T [of c rs ws 3 to_master from_master output_ends world0]
  have e: "card (fst (set_fd_set from_master (set_fd_set to_master ({}, {})))) +
      card (snd (set_fd_set from_master (set_fd_set to_master ({}, {})))) = 2"
    by (simp add: set_fd_set_eq STDIN_FILENO_def STDOUT_FILENO_def STDERR_FILENO_def)
  from a b c d e show ?thesis by blast
qed

subsection \<open>A wait interrupted by a signal\<close>

text \<open>
  Claim C7. In a pass of the loop whose wait is interrupted (a signal is caught, or the
  call fails with \<open>EINTR\<close>), the two channels come back as they were and the loop goes on.
  If the flag \<open>should_set_terminal_size\<close> is set when the wait returns (it was set before,
  or the handler ran during this wait), the pass applies \<open>set_terminal_size\<close> to the
  master: the flag is cleared, the size of the standard output's terminal is queried and,
  when the query answers, set on the master. If the flag is not set, nothing more is
  done. Either way the flag is clear after the pass, and the calls of the pass are the
  \<^verbatim>\<open>pselect\<close> and at most these two \<^verbatim>\<open>ioctl\<close>s: no \<^verbatim>\<open>read\<close> and no \<^verbatim>\<open>write\<close>. The
  handler does nothing but set the flag. In any pass at all, a \<^verbatim>\<open>read\<close> or \<^verbatim>\<open>write\<close> among
  its calls means that the wait returned ready descriptors.
\<close>

theorem interrupted_wait_does_no_channel_io:
  "(wake ev = Signalled sig \<or> wake ev = Failed EINTR \<longrightarrow>
      loop_body m i out ev w =
        (let w1 = snd (pselect (m + 1) (fst (set_fd_set out (set_fd_set i ({}, {}))))
                    (snd (set_fd_set out (set_fd_set i ({}, {})))) (mask_for_select w) (wake ev) w)
         in (Return (i, out),
             if should_set_terminal_size w1 then set_terminal_size m w1 else w1)) \<and>
      \<not> should_set_terminal_size (snd (loop_body m i out ev w)) \<and>
      trace (snd (loop_body m i out ev w)) =
        trace w @
          Sys_pselect (m + 1) (fst (set_fd_set out (set_fd_set i ({}, {}))))
            (snd (set_fd_set out (set_fd_set i ({}, {})))) (mask_for_select w) #
          (if should_set_terminal_size w \<or>
              wake ev = Signalled SIGWINCH \<and> sigwinch_handler w \<and> SIGWINCH \<notin> mask_for_select w
           then Sys_TIOCGWINSZ STDOUT_FILENO #
                (case stdout_winsize w of Some sz \<Rightarrow> [Sys_TIOCSWINSZ m sz] | None \<Rightarrow> [])
           else [])) \<and>
   receive_sigwinch sig w = w\<lparr>should_set_terminal_size := True\<rparr> \<and>
   ((\<exists>x\<in>set (drop (length (trace w)) (trace (snd (loop_body m i out ev w)))). channel_io x) \<longrightarrow>
      (\<exists>r wr. wake ev = Ready r wr))"
proof -
  have s: "trace (snd (loop_body m i out ev w)) =
        trace w @
          Sys_pselect (m + 1) (fst (set_fd_set out (set_fd_set i ({}, {}))))
            (snd (set_fd_set out (set_fd_set i ({}, {})))) (mask_for_select w) #
          (if should_set_terminal_size w \<or>
              wake ev = Signalled SIGWINCH \<and> sigwinch_handler w \<and> SIGWINCH \<notin> mask_for_select w
           then Sys_TIOCGWINSZ STDOUT_FILENO #
                (case stdout_winsize w of Some sz \<Rightarrow> [Sys_TIOCSWINSZ m sz] | None \<Rightarrow> [])
           else [])" if "wake ev = Signalled sg" for sg
    unfolding loop_body_Signalled [OF that] Let_def using that
    by (simp add: sys_def set_terminal_size_frame receive_sigwinch_def)
  have f: "trace (snd (loop_body m i out ev w)) =
        trace w @
          Sys_pselect (m + 1) (fst (set_fd_set out (set_fd_set i ({}, {}))))
            (snd (set_fd_set out (set_fd_set i ({}, {})))) (mask_for_select w) #
          (if should_set_terminal_size w \<and> e = EINTR
           then Sys_TIOCGWINSZ STDOUT_FILENO #
                (case stdout_winsize w of Some sz \<Rightarrow> [Sys_TIOCSWINSZ m sz] | None \<Rightarrow> [])
           else [])" if "wake ev = Failed e" for e
    unfolding loop_body_Failed [OF that] Let_def using that
    by (simp add: sys_def set_terminal_size_frame errno_exit_def)
  have 1: "loop_body m i out ev w =
        (let w1 = snd (pselect (m + 1) (fst (set_fd_set out (set_fd_set i ({}, {}))))
                    (snd (set_fd_set out (set_fd_set i ({}, {})))) (mask_for_select w) (wake ev) w)
         in (Return (i, out),
             if should_set_terminal_size w1 then set_terminal_size m w1 else w1))"
    if "wake ev = Signalled sig \<or> wake ev = Failed EINTR"
    using that by (auto simp add: loop_body_def pselect_def Let_def sys_def)
  have 2: "\<not> should_set_terminal_size (snd (loop_body m i out ev w))"
    if "wake ev = Signalled sig \<or> wake ev = Failed EINTR"
    unfolding 1 [OF that] Let_def by (simp add: set_terminal_size_frame)
  have 3: "trace (snd (loop_body m i out ev w)) =
        trace w @
          Sys_pselect (m + 1) (fst (set_fd_set out (set_fd_set i ({}, {}))))
            (snd (set_fd_set out (set_fd_set i ({}, {})))) (mask_for_select w) #
          (if should_set_terminal_size w \<or>
              wake ev = Signalled SIGWINCH \<and> sigwinch_handler w \<and> SIGWINCH \<notin> mask_for_select w
           then Sys_TIOCGWINSZ STDOUT_FILENO #
                (case stdout_winsize w of Some sz \<Rightarrow> [Sys_TIOCSWINSZ m sz] | None \<Rightarrow> [])
           else [])"
    if "wake ev = Signalled sig \<or> wake ev = Failed EINTR"
    using that s [of sig] f [of EINTR] by auto
  have 4: "receive_sigwinch sig w = w\<lparr>should_set_terminal_size := True\<rparr>"
    by (simp add: receive_sigwinch_def)
  have 5: "(\<exists>x\<in>set (drop (length (trace w)) (trace (snd (loop_body m i out ev w)))). channel_io x) \<longrightarrow>
      (\<exists>r wr. wake ev = Ready r wr)"
  proof (cases "wake ev")
    case (Ready r wr)
    then show ?thesis by simp
  next
    case (Signalled sg)
    from s [OF this] show ?thesis by (auto split: option.splits if_splits)
  next
    case (Failed e)
    from f [OF this] show ?thesis by (auto split: option.splits if_splits)
  qed
  from 1 2 3 4 5 show ?thesis by blast
qed

text \<open>
  A window-size signal arrives during the wait: the channels are unchanged, the flag is
  clear afterwards, and the calls are the wait, the query and the setting of 24 lines and
  80 columns on the master.
\<close>

theorem interrupted_wait_does_no_channel_io_witness:
  "wake resized = Signalled SIGWINCH \<and>
   fst (loop_body 3 to_master from_master resized running) = Return (to_master, from_master) \<and>
   \<not> should_set_terminal_size (snd (loop_body 3 to_master from_master resized running)) \<and>
   trace (snd (loop_body 3 to_master from_master resized running)) =
     [Sys_pselect 4 {0} {1} {}, Sys_TIOCGWINSZ 1,
      Sys_TIOCSWINSZ 3 \<lparr>ws_row = 24, ws_col = 80, ws_xpixel = 0, ws_ypixel = 0\<rparr>]"
proof -
  have h: "wake resized = Signalled SIGWINCH"
    by (simp add: resized_def)
  then have h': "wake resized = Signalled SIGWINCH \<or> wake resized = Failed EINTR"
    by simp
  have sets: "fst (set_fd_set from_master (set_fd_set to_master ({}, {}))) = {0}"
    "snd (set_fd_set from_master (set_fd_set to_master ({}, {}))) = {1}"
    by (simp_all add: set_fd_set_eq to_master_def from_master_def holding_def channel0_def)
  have r: "trace running = []" "mask_for_select running = {}" "sigwinch_handler running"
    "stdout_winsize running = Some \<lparr>ws_row = 24, ws_col = 80, ws_xpixel = 0, ws_ypixel = 0\<rparr>"
    by (simp_all add: running_def world0_def)
  note T = interrupted_wait_does_no_channel_io
    [of resized SIGWINCH 3 to_master from_master running, THEN conjunct1, rule_format, OF h']
  from T have 1: "fst (loop_body 3 to_master from_master resized running) =
      Return (to_master, from_master)"
    by (simp add: Let_def)
  from T have 2: "\<not> should_set_terminal_size (snd (loop_body 3 to_master from_master resized running))"
    by blast
  from T [THEN conjunct2, THEN conjunct2]
  have 3: "trace (snd (loop_body 3 to_master from_master resized running)) =
     [Sys_pselect 4 {0} {1} {}, Sys_TIOCGWINSZ 1,
      Sys_TIOCSWINSZ 3 \<lparr>ws_row = 24, ws_col = 80, ws_xpixel = 0, ws_ypixel = 0\<rparr>]"
    by (simp add: sets r h STDOUT_FILENO_def)
  from h 1 2 3 show ?thesis by blast
qed

subsection \<open>Returning from the program\<close>

text \<open>
  A sequence of two steps returns only if both return. \<open>main\<close> returns only through the
  parent's branch, and the value returned is the one \<open>await_child\<close> computed.
\<close>

lemma and_then_Return:
  "and_then m f = (Return y, w') \<longleftrightarrow> (\<exists>x w1. m = (Return x, w1) \<and> f x w1 = (Return y, w'))"
  by (cases m) (auto simp add: and_then_def split: result.splits)

lemma await_child_Return:
  "await_child M p (r, s, e) w = (Return st, w') \<Longrightarrow>
   r = p \<and> w' = sys (Sys_waitpid p) r e w \<and>
   st = (if WIFEXITED M s then WEXITSTATUS M s
         else if WIFSIGNALED M s then WTERMSIG M s OR 0x80 else EXIT_FAILURE)"
  by (auto simp add: await_child_def Let_def errno_exit_def split: if_splits)

lemma main_parent_Return:
  "main_parent M m p h w = (Return st, w') \<Longrightarrow>
   st = (if WIFEXITED M (wait_status h) then WEXITSTATUS M (wait_status h)
         else if WIFSIGNALED M (wait_status h) then WTERMSIG M (wait_status h) OR 0x80
         else EXIT_FAILURE)"
  by (auto simp add: main_parent_def and_then_Return Let_def split: prod.splits
      dest!: await_child_Return)

lemma main_child_not_Return: "main_child m name argv h w \<noteq> (Return st, w')"
  by (auto simp add: main_child_def and_then_Return exec_command_def errno_exit_def Let_def)

lemma main_Return:
  "main M argv h w = (Return st, w') \<Longrightarrow>
   \<exists>m w1. main_parent M m (fork_ret h) h w1 = (Return st, w')"
  by (auto simp add: main_def and_then_Return Let_def error_exit_def errno_exit_def
      main_child_not_Return split: if_splits)

text \<open>The definitions that a concrete run unfolds.\<close>

lemmas run_defs = main_def main_parent_def and_then_def install_sigwinch_handler_def sigemptyset_def
  sigaddset_def sigdelset_def sigprocmask_BLOCK_def sigaction_SIGWINCH_def
  prepare_master_pseudo_terminal_def set_terminal_size_def ioctl_TIOCGWINSZ_def ioctl_TIOCSWINSZ_def
  slave_pseudo_terminal_name_def disable_canonical_io_def tcgetattr_def tcsetattr_def
  enable_canonical_io_def forward_all_io_def loop_body_def set_fd_set_def pselect_def
  process_buffer_def sys_read_def sys_write_def sys_def await_child_def errno_exit_def error_exit_def
  Let_def host0_def argv0_def world0_def channel0_def output_ends_def end_of_file_def failed_def
  glibc_wait_def cooked_def
  EXIT_FAILURE_def STDIN_FILENO_def STDOUT_FILENO_def STDERR_FILENO_def SIGWINCH_def EINTR_def ENOTTY_def

subsection \<open>The exit status\<close>

text \<open>
  Claim C1. When \<^verbatim>\<open>waitpid\<close> has returned the child, \<open>await_child\<close> returns the child's
  exit code if the child exited, the number of the terminating signal OR'd with \<open>0x80\<close>
  if it was terminated by a signal, and \<open>EXIT_FAILURE\<close> for any other status. The tests
  are made in this order with the platform's macros, whatever they are. Whenever \<open>main\<close>
  returns, the status it returns, which is the exit status of the program, is this
  translation of the wait status of the child.
\<close>

theorem exit_status_of_child:
  "(WIFEXITED M s \<longrightarrow>
      fst (await_child M child_pid (child_pid, s, e) w) = Return (WEXITSTATUS M s)) \<and>
   (\<not> WIFEXITED M s \<and> WIFSIGNALED M s \<longrightarrow>
      fst (await_child M child_pid (child_pid, s, e) w) = Return (WTERMSIG M s OR 0x80)) \<and>
   (\<not> WIFEXITED M s \<and> \<not> WIFSIGNALED M s \<longrightarrow>
      fst (await_child M child_pid (child_pid, s, e) w) = Return EXIT_FAILURE) \<and>
   (main M argv h w = (Return status, w') \<longrightarrow>
      status =
        (if WIFEXITED M (wait_status h) then WEXITSTATUS M (wait_status h)
         else if WIFSIGNALED M (wait_status h) then WTERMSIG M (wait_status h) OR 0x80
         else EXIT_FAILURE))"
  by (auto simp add: await_child_def Let_def dest!: main_Return main_parent_Return)

text \<open>
  With the macros of glibc: status \<open>0x300\<close> (exit code 3) gives 3, status 9 (killed by
  signal 9) gives 137, a status that is neither gives \<open>EXIT_FAILURE\<close>; and the whole run
  of \<^verbatim>\<open>ptwrap ls\<close> returns 3, the exit code of its child.
\<close>

theorem exit_status_of_child_witness:
  "WIFEXITED glibc_wait 0x300 \<and>
   fst (await_child glibc_wait 100 (100, 0x300, 0) world0) = Return 3 \<and>
   WIFSIGNALED glibc_wait 9 \<and>
   fst (await_child glibc_wait 100 (100, 9, 0) world0) = Return 137 \<and>
   fst (await_child glibc_wait 100 (100, 0x137f, 0) world0) = Return EXIT_FAILURE \<and>
   fst (main glibc_wait argv0 host0 world0) = Return 3 \<and>
   WEXITSTATUS glibc_wait (wait_status host0) = 3"
proof -
  note T = exit_status_of_child
  have m: "WIFEXITED glibc_wait 0x300" "WEXITSTATUS glibc_wait 0x300 = 3"
    "\<not> WIFEXITED glibc_wait 9" "WIFSIGNALED glibc_wait 9" "WTERMSIG glibc_wait 9 OR 0x80 = 137"
    "\<not> WIFEXITED glibc_wait 0x137f" "\<not> WIFSIGNALED glibc_wait 0x137f"
    by (simp_all add: glibc_wait_def drop_bit_eq_div)
  from m T [of glibc_wait "0x300" 100 0 world0]
  have a: "fst (await_child glibc_wait 100 (100, 0x300, 0) world0) = Return 3"
    by simp
  from m T [of glibc_wait 9 100 0 world0]
  have b: "fst (await_child glibc_wait 100 (100, 9, 0) world0) = Return 137"
    by simp
  from m T [of glibc_wait "0x137f" 100 0 world0]
  have c: "fst (await_child glibc_wait 100 (100, 0x137f, 0) world0) = Return EXIT_FAILURE"
    by simp
  have d: "fst (main glibc_wait argv0 host0 world0) = Return 3"
    by (simp add: run_defs drop_bit_eq_div)
  then obtain w' where "main glibc_wait argv0 host0 world0 = (Return 3, w')"
    by (cases "main glibc_wait argv0 host0 world0") simp
  with T [where M = glibc_wait and argv = argv0 and h = host0 and w = world0 and status = 3
      and w' = w']
  have "3 = (if WIFEXITED glibc_wait (wait_status host0) then WEXITSTATUS glibc_wait (wait_status host0)
         else if WIFSIGNALED glibc_wait (wait_status host0)
              then WTERMSIG glibc_wait (wait_status host0) OR 0x80
              else EXIT_FAILURE)"
    by blast
  moreover have "wait_status host0 = 0x300"
    by (simp add: host0_def)
  ultimately have e: "WEXITSTATUS glibc_wait (wait_status host0) = 3"
    using m by simp
  from m a b c d e show ?thesis by blast
qed

subsection \<open>The status of a signalled child among the exit codes\<close>

text \<open>
  Claim C8 says that the status of a child terminated by a signal, the signal number
  OR'd with \<open>0x80\<close>, never coincides with a normal exit code from 0 to 255. It does: a
  child killed by signal 9 and a child that exits with code 137 both give the program
  the exit status 137.
\<close>

theorem signal_status_meets_exit_codes:
  "WIFSIGNALED glibc_wait 9 \<and> WTERMSIG glibc_wait 9 = 9 \<and>
   fst (await_child glibc_wait 100 (100, 9, 0) world0) = Return 137 \<and>
   WIFEXITED glibc_wait 0x8900 \<and> WEXITSTATUS glibc_wait 0x8900 = 137 \<and>
   fst (await_child glibc_wait 100 (100, 0x8900, 0) world0) = Return 137 \<and>
   (137 :: int) \<in> {0..255}"
  by (simp add: await_child_def glibc_wait_def drop_bit_eq_div Let_def)

text \<open>
  Claim C8, corrected. For a child terminated by a signal whose number is not negative,
  the status returned is the signal number OR'd with \<open>0x80\<close>; it has the bit \<open>0x80\<close> set
  and is at least 128, so it differs from every exit code from 0 to 127. For a signal
  number up to 127 it lies between 128 and 255, a range it shares with the exit codes
  128 to 255.
\<close>

theorem signal_status_has_high_bit:
  assumes "\<not> WIFEXITED M s" and "WIFSIGNALED M s" and "0 \<le> WTERMSIG M s"
  shows "fst (await_child M child_pid (child_pid, s, e) w) = Return (WTERMSIG M s OR 0x80) \<and>
         (WTERMSIG M s OR 0x80) AND 0x80 = 0x80 \<and>
         128 \<le> WTERMSIG M s OR 0x80 \<and>
         (\<forall>c\<in>{0..127}. WTERMSIG M s OR 0x80 \<noteq> c) \<and>
         (WTERMSIG M s \<le> 127 \<longrightarrow> WTERMSIG M s OR 0x80 \<in> {128..255})"
proof -
  let ?n = "WTERMSIG M s"
  have 1: "fst (await_child M child_pid (child_pid, s, e) w) = Return (?n OR 0x80)"
    using assms by (simp add: await_child_def Let_def)
  have 2: "(?n OR 0x80) AND 0x80 = 0x80"
    by (auto simp add: bit_eq_iff bit_and_iff bit_or_iff)
  have 3: "128 \<le> ?n OR 0x80"
    using assms(3) or_greater_eq [of ?n 128] by (simp add: or.commute)
  have 4: "?n \<le> 127 \<longrightarrow> ?n OR 0x80 \<le> 255"
    using assms(3) OR_upper [of ?n 8 128] by auto
  from 1 2 3 4 show ?thesis by auto
qed

text \<open>Signal 15 with the macros of glibc: the status is 143.\<close>

theorem signal_status_has_high_bit_witness:
  "\<not> WIFEXITED glibc_wait 15 \<and> WIFSIGNALED glibc_wait 15 \<and> WTERMSIG glibc_wait 15 = 15 \<and>
   fst (await_child glibc_wait 100 (100, 15, 0) world0) = Return 143 \<and>
   (143 :: int) AND 0x80 = 0x80 \<and> (143 :: int) \<in> {128..255}"
proof -
  have h: "\<not> WIFEXITED glibc_wait 15" "WIFSIGNALED glibc_wait 15" "0 \<le> WTERMSIG glibc_wait 15"
    by (simp_all add: glibc_wait_def)
  have n: "WTERMSIG glibc_wait 15 = 15" "WTERMSIG glibc_wait 15 OR 0x80 = 143"
    by (simp_all add: glibc_wait_def)
  from signal_status_has_high_bit [OF h, of 100 0 world0] show ?thesis
    unfolding n using h by simp
qed

subsection \<open>No command to run\<close>

text \<open>
  Claim C9 says that the program, invoked with no command operand, reports a usage
  error, exits with a status that is not zero and never allocates a pseudo-terminal.
  With an empty argument vector (\<^verbatim>\<open>argc\<close> is 0, which \<open>main\<close> tests for first) there is no
  operand and the program exits with \<open>EXIT_FAILURE\<close>, but it reports nothing: the
  standard error stream stays empty.
\<close>

theorem no_arguments_no_usage_error:
  "main glibc_wait [] host0 world0 = (Exit EXIT_FAILURE, world0) \<and>
   stderr (snd (main glibc_wait [] host0 world0)) = []"
  by (simp add: main_def world0_def)

text \<open>
  Claim C9, corrected. When the argument vector is not empty and holds nothing after the
  program's name and an optional \<^verbatim>\<open>--\<close>, the program writes its name, a colon and
  \<^verbatim>\<open>operand missing\<close> to the standard error stream and exits with \<open>EXIT_FAILURE\<close>, having
  made no call to the system at all, so no pseudo-terminal is allocated. When the
  argument vector is empty it exits with \<open>EXIT_FAILURE\<close> and the world is untouched.
  \<open>EXIT_FAILURE\<close> is not zero.
\<close>

theorem operand_missing:
  "(argv \<noteq> [] \<and> drop (if 1 < length argv \<and> argv ! 1 = ''--'' then 2 else 1) argv = [] \<longrightarrow>
      main M argv h w =
        (Exit EXIT_FAILURE,
         w\<lparr>program_name := argv ! 0,
           stderr := stderr w @ [Text (argv ! 0 @ '': operand missing'' @ [CHR 0x0A])]\<rparr>) \<and>
      trace (snd (main M argv h w)) = trace w) \<and>
   (argv = [] \<longrightarrow> main M argv h w = (Exit EXIT_FAILURE, w)) \<and>
   EXIT_FAILURE \<noteq> 0"
proof -
  have 1: "main M argv h w =
        (Exit EXIT_FAILURE,
         w\<lparr>program_name := argv ! 0,
           stderr := stderr w @ [Text (argv ! 0 @ '': operand missing'' @ [CHR 0x0A])]\<rparr>)"
    if "argv \<noteq> []" "drop (if 1 < length argv \<and> argv ! 1 = ''--'' then 2 else 1) argv = []"
  proof -
    define c where "c = (1 < length argv \<and> argv ! 1 = ''--'')"
    from that(1) have pos: "0 < length argv"
      by simp
    from that(2) have le: "length argv \<le> (if c then 2 else 1)"
      unfolding c_def by (simp only: drop_eq_Nil)
    have gt: "c \<Longrightarrow> 1 < length argv"
      unfolding c_def by blast
    have "length argv = (if c then 2 else 1)"
    proof (cases c)
      case True
      with le gt show ?thesis by simp
    next
      case False
      with le pos show ?thesis by (simp del: length_greater_0_conv)
    qed
    then have "length argv = (if 1 < length argv \<and> argv ! 1 = ''--'' then 2 else 1)"
      unfolding c_def .
    with that(1) show ?thesis
      by (auto simp add: main_def Let_def error_exit_def split: if_splits)
  qed
  have 2: "argv = [] \<longrightarrow> main M argv h w = (Exit EXIT_FAILURE, w)"
    by (simp add: main_def)
  have 3: "EXIT_FAILURE \<noteq> 0"
    by (simp add: EXIT_FAILURE_def)
  from 1 2 3 show ?thesis by simp
qed

text \<open>
  \<^verbatim>\<open>ptwrap\<close> and \<^verbatim>\<open>ptwrap --\<close> report the missing operand and make no call, whereas the run
  of \<^verbatim>\<open>ptwrap ls\<close> does call \<^verbatim>\<open>posix_openpt\<close>.
\<close>

theorem operand_missing_witness:
  "main glibc_wait [''ptwrap''] host0 world0 =
     (Exit 1, world0\<lparr>program_name := ''ptwrap'',
        stderr := [Text (''ptwrap: operand missing'' @ [CHR 0x0A])]\<rparr>) \<and>
   main glibc_wait [''ptwrap'', ''--''] host0 world0 =
     (Exit 1, world0\<lparr>program_name := ''ptwrap'',
        stderr := [Text (''ptwrap: operand missing'' @ [CHR 0x0A])]\<rparr>) \<and>
   trace (snd (main glibc_wait [''ptwrap'', ''--''] host0 world0)) = [] \<and>
   Sys_posix_openpt \<in> set (trace (snd (main glibc_wait argv0 host0 world0)))"
proof -
  note T = operand_missing
  have e: "stderr world0 = []" "trace world0 = []"
    by (simp_all add: world0_def)
  from T [of "[''ptwrap'']" glibc_wait host0 world0]
  have a: "main glibc_wait [''ptwrap''] host0 world0 =
     (Exit 1, world0\<lparr>program_name := ''ptwrap'',
        stderr := [Text (''ptwrap: operand missing'' @ [CHR 0x0A])]\<rparr>)"
    by (simp add: e EXIT_FAILURE_def)
  from T [of "[''ptwrap'', ''--'']" glibc_wait host0 world0]
  have b: "main glibc_wait [''ptwrap'', ''--''] host0 world0 =
     (Exit 1, world0\<lparr>program_name := ''ptwrap'',
        stderr := [Text (''ptwrap: operand missing'' @ [CHR 0x0A])]\<rparr>)"
    and c: "trace (snd (main glibc_wait [''ptwrap'', ''--''] host0 world0)) = []"
    by (simp_all add: e EXIT_FAILURE_def)
  have d: "Sys_posix_openpt \<in> set (trace (snd (main glibc_wait argv0 host0 world0)))"
    by (simp add: run_defs drop_bit_eq_div)
  from a b c d show ?thesis by blast
qed

subsection \<open>The terminal's attributes from start to exit\<close>

text \<open>
  Nothing before the \<^verbatim>\<open>fork\<close> touches the terminal's attributes, nor do the loop and the
  wait for the child. On a terminal, \<open>disable_canonical_io\<close> saves the attributes, asks
  once for the raw ones and reports whether that call succeeded; \<open>enable_canonical_io\<close>
  asks once for the saved ones. The parent's branch is spelt out by the outcome of the
  loop and of the wait, and an exit on either path has the status \<open>EXIT_FAILURE\<close>.
\<close>

lemma sys_keeps_terminal: "\<not> is_tcsetattr c \<Longrightarrow> keeps_terminal w (sys c r e w)"
  by (simp add: keeps_terminal_def sys_def)

lemma install_sigwinch_handler_keeps_terminal:
  "keeps_terminal w (snd (install_sigwinch_handler w))"
  by (simp add: install_sigwinch_handler_def sigemptyset_def sigaddset_def sigdelset_def
      sigprocmask_BLOCK_def sigaction_SIGWINCH_def SIGWINCH_def Let_def sys_def keeps_terminal_def)

lemma prepare_master_pseudo_terminal_keeps_terminal:
  "keeps_terminal w (snd (prepare_master_pseudo_terminal h w))"
  by (auto simp add: prepare_master_pseudo_terminal_def Let_def sys_def keeps_terminal_def
      errno_exit_def error_exit_def set_terminal_size_frame split: option.splits)

lemma slave_pseudo_terminal_name_keeps_terminal:
  "keeps_terminal w (snd (slave_pseudo_terminal_name m h w))"
  by (auto simp add: slave_pseudo_terminal_name_def Let_def sys_def keeps_terminal_def
      errno_exit_def split: option.splits)

lemma main_reaches_parent:
  assumes "main M argv h w = (Return st, w')"
  shows "\<exists>m w1. main_parent M m (fork_ret h) h w1 = (Return st, w') \<and> keeps_terminal w w1"
proof -
  let ?w0 = "w\<lparr>program_name := argv ! 0\<rparr>"
  have k0: "keeps_terminal w ?w0"
    by (simp add: keeps_terminal_def)
  from assms obtain u wa m wb name wc
    where a: "install_sigwinch_handler ?w0 = (Return u, wa)"
      and b: "prepare_master_pseudo_terminal h wa = (Return m, wb)"
      and c: "slave_pseudo_terminal_name m h wb = (Return name, wc)"
      and d: "main_parent M m (fork_ret h) h (sys Sys_fork (fork_ret h) (host_errno h) wc) =
                (Return st, w')"
    by (auto simp add: main_def and_then_Return Let_def error_exit_def errno_exit_def
        main_child_not_Return split: if_splits)
  from a install_sigwinch_handler_keeps_terminal [of ?w0] have ka: "keeps_terminal ?w0 wa"
    by simp
  from b prepare_master_pseudo_terminal_keeps_terminal [of wa h] have kb: "keeps_terminal wa wb"
    by simp
  from c slave_pseudo_terminal_name_keeps_terminal [of wb m h] have kc: "keeps_terminal wb wc"
    by simp
  have kd: "keeps_terminal wc (sys Sys_fork (fork_ret h) (host_errno h) wc)"
    by (simp add: sys_keeps_terminal)
  from k0 ka kb kc kd have "keeps_terminal w (sys Sys_fork (fork_ret h) (host_errno h) wc)"
    by (blast intro: keeps_terminal_trans)
  with d show ?thesis by blast
qed

lemma forward_all_io_keeps_terminal:
  "keeps_terminal w (snd (forward_all_io m i0 o0 evs w))"
  by (simp add: forward_all_io_def Let_def forward_loop_keeps_terminal)

lemma await_child_keeps_terminal:
  "keeps_terminal w (snd (await_child M p a w))"
  by (cases a) (auto simp add: await_child_def Let_def sys_def errno_exit_def keeps_terminal_def)


lemma disable_canonical_io_on_terminal:
  assumes "stdin_termios w = Some t"
  shows "\<exists>raw. fst (disable_canonical_io r e w) = (0 \<le> r) \<and>
           original_termios (snd (disable_canonical_io r e w)) = t \<and>
           trace (snd (disable_canonical_io r e w)) =
             trace w @ [Sys_tcgetattr STDIN_FILENO, Sys_tcsetattr STDIN_FILENO raw] \<and>
           stdin_termios (snd (disable_canonical_io r e w)) = (if 0 \<le> r then Some raw else Some t)"
  using assms
  by (simp add: disable_canonical_io_def tcgetattr_def tcsetattr_def sys_def Let_def)

lemma enable_canonical_io_world:
  "trace (enable_canonical_io r e w) = trace w @ [Sys_tcsetattr STDIN_FILENO (original_termios w)] \<and>
   stdin_termios (enable_canonical_io r e w) =
     (if 0 \<le> r \<and> stdin_termios w \<noteq> None then Some (original_termios w) else stdin_termios w)"
  by (simp add: enable_canonical_io_def tcsetattr_def sys_def Let_def)

lemma main_parent_steps:
  "main_parent M m p h w =
     (let d = disable_canonical_io (tcsetattr_ret1 h) (host_errno h) w;
          f = forward_all_io m (incoming0 h) (outgoing0 h) (events h) (snd d);
          a = await_child M p (waitpid_ret h, wait_status h, host_errno h) (snd f)
      in case fst f of
           Return x \<Rightarrow>
             (case fst a of
                Return st \<Rightarrow>
                  (Return st,
                   if fst d then enable_canonical_io (tcsetattr_ret2 h) (host_errno h) (snd a)
                   else snd a)
              | Exit n \<Rightarrow> (Exit n, snd a)
              | Abort \<Rightarrow> (Abort, snd a)
              | Blocked \<Rightarrow> (Blocked, snd a)
              | Exec c \<Rightarrow> (Exec c, snd a))
         | Exit n \<Rightarrow> (Exit n, snd f)
         | Abort \<Rightarrow> (Abort, snd f)
         | Blocked \<Rightarrow> (Blocked, snd f)
         | Exec c \<Rightarrow> (Exec c, snd f))"
proof -
  obtain nc wa where d: "disable_canonical_io (tcsetattr_ret1 h) (host_errno h) w = (nc, wa)"
    by (cases "disable_canonical_io (tcsetattr_ret1 h) (host_errno h) w")
  obtain rf wb where f: "forward_all_io m (incoming0 h) (outgoing0 h) (events h) wa = (rf, wb)"
    by (cases "forward_all_io m (incoming0 h) (outgoing0 h) (events h) wa")
  obtain ra wc where a: "await_child M p (waitpid_ret h, wait_status h, host_errno h) wb = (ra, wc)"
    by (cases "await_child M p (waitpid_ret h, wait_status h, host_errno h) wb")
  show ?thesis
    by (cases rf; cases ra) (simp_all add: main_parent_def and_then_def Let_def d f a)
qed

lemma await_child_last_call:
  "trace (snd (await_child M p a w)) = trace w @ [Sys_waitpid p]"
  by (cases a) (auto simp add: await_child_def Let_def sys_def errno_exit_def)

lemma await_child_Exit:
  "fst (await_child M p a w) = Exit n \<Longrightarrow> n = EXIT_FAILURE"
  by (cases a) (auto simp add: await_child_def Let_def errno_exit_def split: if_splits)

lemma loop_body_Exit:
  "fst (loop_body m i out ev w) = Exit n \<Longrightarrow> n = EXIT_FAILURE"
proof (cases "wake ev")
  case (Ready r wr)
  assume e: "fst (loop_body m i out ev w) = Exit n"
  have "fst (process_buffer c rs ws a v) \<noteq> Exit n" for c rs ws a v
    by (auto simp add: process_buffer_def sys_read_def sys_write_def Let_def
        split: state_T.splits prod.splits)
  then have nx: "process_buffer c rs ws a v \<noteq> (Exit n, v')" for c rs ws a v v'
    by (metis fst_conv)
  from e nx show ?thesis
    unfolding loop_body_Ready [OF Ready] Let_def and_then_def
    by (auto split: prod.splits result.splits)
next
  case (Signalled sig)
  assume "fst (loop_body m i out ev w) = Exit n"
  then show ?thesis
    unfolding loop_body_Signalled [OF Signalled] Let_def by simp
next
  case (Failed e)
  assume "fst (loop_body m i out ev w) = Exit n"
  then show ?thesis
    unfolding loop_body_Failed [OF Failed] Let_def
    by (simp add: errno_exit_def split: if_splits)
qed

lemma forward_loop_Exit:
  "fst (forward_loop m i out evs w) = Exit n \<Longrightarrow> n = EXIT_FAILURE"
proof (induction evs arbitrary: i out w)
  case Nil
  then show ?case by (simp split: if_splits)
next
  case (Cons ev evs)
  show ?case
  proof (cases "state out = INACTIVE")
    case True
    with Cons.prems show ?thesis by simp
  next
    case False
    obtain r w1 where lb: "loop_body m i out ev w = (r, w1)"
      by (cases "loop_body m i out ev w")
    show ?thesis
    proof (cases r)
      case (Return p)
      obtain i1 o1 where "p = (i1, o1)" by (cases p)
      with False lb Return Cons.prems Cons.IH [of i1 o1 w1] show ?thesis by simp
    next
      case (Exit k)
      with False lb Cons.prems loop_body_Exit [of m i out ev w k] show ?thesis by simp
    qed (use False lb Cons.prems in simp_all)
  qed
qed


lemma main_parent_Return_world:
  assumes P: "main_parent M m p h w = (Return st, w')" and tty: "stdin_termios w = Some t"
  shows "\<exists>raw xs. (\<forall>x\<in>set xs. \<not> is_tcsetattr x) \<and>
     trace w' =
       trace w @ Sys_tcgetattr STDIN_FILENO # Sys_tcsetattr STDIN_FILENO raw # xs @
         Sys_waitpid p # (if 0 \<le> tcsetattr_ret1 h then [Sys_tcsetattr STDIN_FILENO t] else []) \<and>
     stdin_termios w' =
       (if 0 \<le> tcsetattr_ret1 h \<and> tcsetattr_ret2 h < 0 then Some raw else Some t)"
proof -
  let ?d = "disable_canonical_io (tcsetattr_ret1 h) (host_errno h) w"
  let ?f = "forward_all_io m (incoming0 h) (outgoing0 h) (events h) (snd ?d)"
  let ?a = "await_child M p (waitpid_ret h, wait_status h, host_errno h) (snd ?f)"
  from P have w': "w' = (if fst ?d then enable_canonical_io (tcsetattr_ret2 h) (host_errno h) (snd ?a)
                         else snd ?a)"
    unfolding main_parent_steps Let_def by (cases "fst ?f"; cases "fst ?a") simp_all
  from disable_canonical_io_on_terminal [OF tty, of "tcsetattr_ret1 h" "host_errno h"]
  obtain raw where d1: "fst ?d = (0 \<le> tcsetattr_ret1 h)"
    and d2: "original_termios (snd ?d) = t"
    and d3: "trace (snd ?d) = trace w @ [Sys_tcgetattr STDIN_FILENO, Sys_tcsetattr STDIN_FILENO raw]"
    and d4: "stdin_termios (snd ?d) = (if 0 \<le> tcsetattr_ret1 h then Some raw else Some t)"
    by blast
  from forward_all_io_keeps_terminal [of "snd ?d" m "incoming0 h" "outgoing0 h" "events h"]
  obtain xs where f1: "original_termios (snd ?f) = original_termios (snd ?d)"
    and f2: "stdin_termios (snd ?f) = stdin_termios (snd ?d)"
    and f3: "trace (snd ?f) = trace (snd ?d) @ xs" and f4: "\<forall>x\<in>set xs. \<not> is_tcsetattr x"
    unfolding keeps_terminal_def by blast
  from await_child_keeps_terminal [of "snd ?f" M p "(waitpid_ret h, wait_status h, host_errno h)"]
  have a1: "original_termios (snd ?a) = original_termios (snd ?f)"
    and a2: "stdin_termios (snd ?a) = stdin_termios (snd ?f)"
    unfolding keeps_terminal_def by blast+
  have a3: "trace (snd ?a) = trace (snd ?f) @ [Sys_waitpid p]"
    by (rule await_child_last_call)
  have "trace w' =
       trace w @ Sys_tcgetattr STDIN_FILENO # Sys_tcsetattr STDIN_FILENO raw # xs @
         Sys_waitpid p # (if 0 \<le> tcsetattr_ret1 h then [Sys_tcsetattr STDIN_FILENO t] else [])"
    unfolding w' by (simp add: d1 d2 d3 f1 f3 a1 a3 enable_canonical_io_world)
  moreover have "stdin_termios w' =
       (if 0 \<le> tcsetattr_ret1 h \<and> tcsetattr_ret2 h < 0 then Some raw else Some t)"
    unfolding w' by (simp add: d1 d2 d4 f1 f2 a1 a2 enable_canonical_io_world)
  ultimately show ?thesis using f4 by blast
qed

lemma main_parent_Exit_world:
  assumes P: "main_parent M m p h w = (Exit n, w')" and tty: "stdin_termios w = Some t"
  shows "n = EXIT_FAILURE \<and>
     length (filter is_tcsetattr (drop (length (trace w)) (trace w'))) = 1 \<and>
     stdin_termios w' =
       stdin_termios (snd (disable_canonical_io (tcsetattr_ret1 h) (host_errno h) w))"
proof -
  let ?d = "disable_canonical_io (tcsetattr_ret1 h) (host_errno h) w"
  let ?f = "forward_all_io m (incoming0 h) (outgoing0 h) (events h) (snd ?d)"
  let ?a = "await_child M p (waitpid_ret h, wait_status h, host_errno h) (snd ?f)"
  from disable_canonical_io_on_terminal [OF tty, of "tcsetattr_ret1 h" "host_errno h"]
  obtain raw where
    d3: "trace (snd ?d) = trace w @ [Sys_tcgetattr STDIN_FILENO, Sys_tcsetattr STDIN_FILENO raw]"
    by blast
  from forward_all_io_keeps_terminal [of "snd ?d" m "incoming0 h" "outgoing0 h" "events h"]
  obtain xs where f2: "stdin_termios (snd ?f) = stdin_termios (snd ?d)"
    and f3: "trace (snd ?f) = trace (snd ?d) @ xs" and f4: "\<forall>x\<in>set xs. \<not> is_tcsetattr x"
    unfolding keeps_terminal_def by blast
  from await_child_keeps_terminal [of "snd ?f" M p "(waitpid_ret h, wait_status h, host_errno h)"]
  have a2: "stdin_termios (snd ?a) = stdin_termios (snd ?f)"
    unfolding keeps_terminal_def by blast
  have a3: "trace (snd ?a) = trace (snd ?f) @ [Sys_waitpid p]"
    by (rule await_child_last_call)
  from f4 have nf: "filter is_tcsetattr xs = []"
    by (simp add: filter_empty_conv)
  from P have "fst ?f = Exit n \<and> w' = snd ?f \<or> fst ?a = Exit n \<and> w' = snd ?a"
    unfolding main_parent_steps Let_def by (cases "fst ?f"; cases "fst ?a") simp_all
  then consider (loop) "fst ?f = Exit n" "w' = snd ?f"
    | (wait) "fst ?a = Exit n" "w' = snd ?a"
    by blast
  then show ?thesis
  proof cases
    case loop
    from loop(1) have "n = EXIT_FAILURE"
      unfolding forward_all_io_def Let_def by (rule forward_loop_Exit)
    with loop(2) d3 f2 f3 nf show ?thesis by simp
  next
    case wait
    from wait(1) have "n = EXIT_FAILURE"
      by (rule await_child_Exit)
    with wait(2) d3 f2 f3 a2 a3 nf show ?thesis by simp
  qed
qed

text \<open>The attribute flags that a concrete run unfolds.\<close>

lemmas termios_defs = BRKINT_def ICRNL_def IGNBRK_def IGNCR_def INLCR_def IXON_def IXOFF_def
  PARMRK_def OPOST_def ECHO_def ICANON_def IEXTEN_def ISIG_def VMIN_def VTIME_def

text \<open>
  Claim C4 says that in every completed run in which the capture of the terminal's
  attributes succeeds, the loop finishes and the wait succeeds, the parent restores the
  captured attributes exactly once, so that the attributes after the exit are those
  before the start. Two runs of \<^verbatim>\<open>ptwrap ls\<close> on a terminal complete and return the
  child's status 3. In the first the call that asks for raw mode fails, so
  \<open>disable_canonical_io\<close> returns false and the parent never calls \<^verbatim>\<open>tcsetattr\<close> with the
  captured attributes. In the second the restoring call itself fails, which the program
  ignores, and the terminal is left with other attributes than it had.
\<close>

theorem restoration_not_guaranteed:
  "stdin_termios world0 = Some cooked \<and>
   fst (main glibc_wait argv0 (host0\<lparr>tcsetattr_ret1 := -1\<rparr>) world0) = Return 3 \<and>
   Sys_tcsetattr STDIN_FILENO cooked \<notin>
     set (trace (snd (main glibc_wait argv0 (host0\<lparr>tcsetattr_ret1 := -1\<rparr>) world0))) \<and>
   fst (main glibc_wait argv0 (host0\<lparr>tcsetattr_ret2 := -1\<rparr>) world0) = Return 3 \<and>
   stdin_termios (snd (main glibc_wait argv0 (host0\<lparr>tcsetattr_ret2 := -1\<rparr>) world0)) \<noteq>
     Some cooked"
  by (simp add: run_defs termios_defs drop_bit_eq_div)

text \<open>
  Claim C4, corrected. Take a run of \<open>main\<close> that returns (the loop has finished and the
  wait has succeeded) on a standard input that is a terminal with attributes \<open>t\<close>. If the
  call that asks for raw mode succeeds, the process sets terminal attributes exactly
  twice, the second time with \<open>t\<close> and as its very last call, and if that call succeeds
  the terminal has the attributes \<open>t\<close> again. If the call that asks for raw mode fails,
  that failed call is the only one that sets attributes, the last call is \<^verbatim>\<open>waitpid\<close>
  and the terminal still has the attributes \<open>t\<close>. When the parent's branch ends in an
  exit instead, after raw mode was entered, which happens on the fatal failure of
  \<^verbatim>\<open>pselect\<close> and on the failure of \<^verbatim>\<open>waitpid\<close>, the status is \<open>EXIT_FAILURE\<close>, no
  restoring call is made and the terminal is left as \<open>disable_canonical_io\<close> left it.
\<close>

theorem terminal_attributes_restored:
  "(main M argv h w = (Return st, w') \<and> stdin_termios w = Some t \<and> 0 \<le> tcsetattr_ret1 h \<longrightarrow>
      length (filter is_tcsetattr (drop (length (trace w)) (trace w'))) = 2 \<and>
      last (trace w') = Sys_tcsetattr STDIN_FILENO t \<and>
      (0 \<le> tcsetattr_ret2 h \<longrightarrow> stdin_termios w' = Some t)) \<and>
   (main M argv h w = (Return st, w') \<and> stdin_termios w = Some t \<and> tcsetattr_ret1 h < 0 \<longrightarrow>
      length (filter is_tcsetattr (drop (length (trace w)) (trace w'))) = 1 \<and>
      last (trace w') = Sys_waitpid (fork_ret h) \<and>
      stdin_termios w' = Some t) \<and>
   (main_parent M m p h w = (Exit n, w') \<and> stdin_termios w = Some t \<and> 0 \<le> tcsetattr_ret1 h \<longrightarrow>
      n = EXIT_FAILURE \<and>
      length (filter is_tcsetattr (drop (length (trace w)) (trace w'))) = 1 \<and>
      stdin_termios w' =
        stdin_termios (snd (disable_canonical_io (tcsetattr_ret1 h) (host_errno h) w)))"
proof -
  have R: "\<exists>raw ys xs. (\<forall>x\<in>set ys. \<not> is_tcsetattr x) \<and> (\<forall>x\<in>set xs. \<not> is_tcsetattr x) \<and>
     trace w' =
       trace w @ ys @ Sys_tcgetattr STDIN_FILENO # Sys_tcsetattr STDIN_FILENO raw # xs @
         Sys_waitpid (fork_ret h) #
         (if 0 \<le> tcsetattr_ret1 h then [Sys_tcsetattr STDIN_FILENO t] else []) \<and>
     stdin_termios w' =
       (if 0 \<le> tcsetattr_ret1 h \<and> tcsetattr_ret2 h < 0 then Some raw else Some t)"
    if run: "main M argv h w = (Return st, w')" and tty: "stdin_termios w = Some t"
  proof -
    from main_reaches_parent [OF run] obtain m1 w1
      where p: "main_parent M m1 (fork_ret h) h w1 = (Return st, w')" and k: "keeps_terminal w w1"
      by blast
    from k obtain ys where k1: "stdin_termios w1 = stdin_termios w"
      and k2: "trace w1 = trace w @ ys" and k3: "\<forall>x\<in>set ys. \<not> is_tcsetattr x"
      unfolding keeps_terminal_def by blast
    from k1 tty have "stdin_termios w1 = Some t" by simp
    from main_parent_Return_world [OF p this] obtain raw xs
      where x: "\<forall>x\<in>set xs. \<not> is_tcsetattr x"
        and tr: "trace w' =
          trace w1 @ Sys_tcgetattr STDIN_FILENO # Sys_tcsetattr STDIN_FILENO raw # xs @
            Sys_waitpid (fork_ret h) #
            (if 0 \<le> tcsetattr_ret1 h then [Sys_tcsetattr STDIN_FILENO t] else [])"
        and tt: "stdin_termios w' =
          (if 0 \<le> tcsetattr_ret1 h \<and> tcsetattr_ret2 h < 0 then Some raw else Some t)"
      by blast
    from tr k2 have "trace w' =
       trace w @ ys @ Sys_tcgetattr STDIN_FILENO # Sys_tcsetattr STDIN_FILENO raw # xs @
         Sys_waitpid (fork_ret h) #
         (if 0 \<le> tcsetattr_ret1 h then [Sys_tcsetattr STDIN_FILENO t] else [])"
      by simp
    with k3 x tt show ?thesis by blast
  qed
  have 1: "length (filter is_tcsetattr (drop (length (trace w)) (trace w'))) = 2 \<and>
      last (trace w') = Sys_tcsetattr STDIN_FILENO t \<and>
      (0 \<le> tcsetattr_ret2 h \<longrightarrow> stdin_termios w' = Some t)"
    if "main M argv h w = (Return st, w')" "stdin_termios w = Some t" "0 \<le> tcsetattr_ret1 h"
  proof -
    from R [OF that(1,2)] that(3) obtain raw ys xs
      where "filter is_tcsetattr ys = []" "filter is_tcsetattr xs = []"
        and "trace w' =
          trace w @ ys @ Sys_tcgetattr STDIN_FILENO # Sys_tcsetattr STDIN_FILENO raw # xs @
            [Sys_waitpid (fork_ret h), Sys_tcsetattr STDIN_FILENO t]"
        and "stdin_termios w' = (if tcsetattr_ret2 h < 0 then Some raw else Some t)"
      by (auto simp add: filter_empty_conv)
    then show ?thesis by simp
  qed
  have 2: "length (filter is_tcsetattr (drop (length (trace w)) (trace w'))) = 1 \<and>
      last (trace w') = Sys_waitpid (fork_ret h) \<and>
      stdin_termios w' = Some t"
    if "main M argv h w = (Return st, w')" "stdin_termios w = Some t" "tcsetattr_ret1 h < 0"
  proof -
    from R [OF that(1,2)] that(3) obtain raw ys xs
      where "filter is_tcsetattr ys = []" "filter is_tcsetattr xs = []"
        and "trace w' =
          trace w @ ys @ Sys_tcgetattr STDIN_FILENO # Sys_tcsetattr STDIN_FILENO raw # xs @
            [Sys_waitpid (fork_ret h)]"
        and "stdin_termios w' = Some t"
      by (auto simp add: filter_empty_conv)
    then show ?thesis by simp
  qed
  have 3: "n = EXIT_FAILURE \<and>
      length (filter is_tcsetattr (drop (length (trace w)) (trace w'))) = 1 \<and>
      stdin_termios w' =
        stdin_termios (snd (disable_canonical_io (tcsetattr_ret1 h) (host_errno h) w))"
    if "main_parent M m p h w = (Exit n, w')" "stdin_termios w = Some t"
    using that by (rule main_parent_Exit_world)
  show ?thesis
  proof (intro conjI)
    show "main M argv h w = (Return st, w') \<and> stdin_termios w = Some t \<and> 0 \<le> tcsetattr_ret1 h \<longrightarrow>
      length (filter is_tcsetattr (drop (length (trace w)) (trace w'))) = 2 \<and>
      last (trace w') = Sys_tcsetattr STDIN_FILENO t \<and>
      (0 \<le> tcsetattr_ret2 h \<longrightarrow> stdin_termios w' = Some t)"
      using 1 by (intro impI; elim conjE)
    show "main M argv h w = (Return st, w') \<and> stdin_termios w = Some t \<and> tcsetattr_ret1 h < 0 \<longrightarrow>
      length (filter is_tcsetattr (drop (length (trace w)) (trace w'))) = 1 \<and>
      last (trace w') = Sys_waitpid (fork_ret h) \<and>
      stdin_termios w' = Some t"
      using 2 by (intro impI; elim conjE)
    show "main_parent M m p h w = (Exit n, w') \<and> stdin_termios w = Some t \<and> 0 \<le> tcsetattr_ret1 h \<longrightarrow>
      n = EXIT_FAILURE \<and>
      length (filter is_tcsetattr (drop (length (trace w)) (trace w'))) = 1 \<and>
      stdin_termios w' =
        stdin_termios (snd (disable_canonical_io (tcsetattr_ret1 h) (host_errno h) w))"
      using 3 by (intro impI; elim conjE)
  qed
qed

text \<open>
  The run of \<^verbatim>\<open>ptwrap ls\<close> in which every call succeeds sets attributes twice, ends with
  the restoring call and leaves the terminal in its canonical mode; the parent in whose
  loop \<^verbatim>\<open>pselect\<close> fails exits with \<open>EXIT_FAILURE\<close> and leaves the terminal in raw mode.
\<close>

theorem terminal_attributes_restored_witness:
  "fst (main glibc_wait argv0 host0 world0) = Return 3 \<and>
   stdin_termios world0 = Some cooked \<and> 0 \<le> tcsetattr_ret1 host0 \<and> 0 \<le> tcsetattr_ret2 host0 \<and>
   length (filter is_tcsetattr (trace (snd (main glibc_wait argv0 host0 world0)))) = 2 \<and>
   last (trace (snd (main glibc_wait argv0 host0 world0))) = Sys_tcsetattr STDIN_FILENO cooked \<and>
   stdin_termios (snd (main glibc_wait argv0 host0 world0)) = Some cooked \<and>
   fst (main_parent glibc_wait 3 100 (host0\<lparr>events := [wait_fails]\<rparr>) world0) = Exit EXIT_FAILURE \<and>
   stdin_termios (snd (main_parent glibc_wait 3 100 (host0\<lparr>events := [wait_fails]\<rparr>) world0)) =
     stdin_termios (snd (disable_canonical_io 0 0 world0)) \<and>
   stdin_termios (snd (disable_canonical_io 0 0 world0)) \<noteq> Some cooked"
proof -
  note T = terminal_attributes_restored
  let ?r = "main glibc_wait argv0 host0 world0"
  let ?h = "host0\<lparr>events := [wait_fails]\<rparr>"
  let ?p = "main_parent glibc_wait 3 100 ?h world0"
  have a: "fst ?r = Return 3"
    by (simp add: run_defs drop_bit_eq_div)
  then have r: "?r = (Return 3, snd ?r)"
    by (cases ?r) simp
  have b: "stdin_termios world0 = Some cooked" "0 \<le> tcsetattr_ret1 host0" "0 \<le> tcsetattr_ret2 host0"
    "trace world0 = []"
    by (simp_all add: world0_def host0_def)
  from r b T [where M = glibc_wait and argv = argv0 and h = host0 and w = world0 and st = 3
      and w' = "snd ?r" and t = cooked]
  have c: "length (filter is_tcsetattr (trace (snd ?r))) = 2 \<and>
      last (trace (snd ?r)) = Sys_tcsetattr STDIN_FILENO cooked \<and>
      stdin_termios (snd ?r) = Some cooked"
    by simp
  have d: "fst ?p = Exit EXIT_FAILURE"
    by (simp add: run_defs wait_fails_def)
  then have p: "?p = (Exit EXIT_FAILURE, snd ?p)"
    by (cases ?p) simp
  have b': "0 \<le> tcsetattr_ret1 ?h" "tcsetattr_ret1 ?h = 0" "host_errno ?h = 0"
    by (simp_all add: host0_def)
  from p b b' T [where M = glibc_wait and m = 3 and p = 100 and h = ?h and w = world0
      and n = EXIT_FAILURE and w' = "snd ?p" and t = cooked]
  have e: "stdin_termios (snd ?p) = stdin_termios (snd (disable_canonical_io 0 0 world0))"
    by simp
  have f: "stdin_termios (snd (disable_canonical_io 0 0 world0)) \<noteq> Some cooked"
    by (simp add: run_defs termios_defs)
  from a b c d e f show ?thesis by blast
qed

end
